theory Spec2Isabelle
  imports Main "HOL-Library.Word"
begin

unbundle bit_operations_syntax

section \<open>The authentication core of the gbajs3 Workers API\<close>

text \<open>
  A shallow embedding of \<^verbatim>\<open>workers-api/src/utils.ts\<close>, \<^verbatim>\<open>routes/auth.ts\<close> and
  \<^verbatim>\<open>routes/tokens.ts\<close>. Every \<^verbatim>\<open>await\<close>ed promise is modelled by its outcome: a
  rejected promise (a thrown exception) is \<open>Inl\<close> of the exception, a fulfilled one is
  \<open>Inr\<close> of its value.

  Strings are \<^typ>\<open>string\<close>. A text string stands for the UTF-8 bytes of the JavaScript
  string, on which \<^verbatim>\<open>startsWith\<close>, \<^verbatim>\<open>split\<close> at an ASCII separator and the
  alphabet test of \<^verbatim>\<open>atob\<close> agree with the UTF-16 original; a binary string (the
  argument of \<^verbatim>\<open>btoa\<close>, the result of \<^verbatim>\<open>atob\<close>) has one character per byte.
\<close>

type_synonym byte = "8 word"

datatype exn = SyntaxError | TypeError | URIError | InvalidCharacterError | D1_TYPE_ERROR

subsection \<open>String primitives of the JavaScript runtime\<close>

definition startsWith :: "string \<Rightarrow> string \<Rightarrow> bool" where
  "startsWith s p = (take (length p) s = p)"

text \<open>\<^verbatim>\<open>s.split(sep)\<close> for a one-character separator: one more field than separators.\<close>

fun str_split :: "char \<Rightarrow> string \<Rightarrow> string list" where
  "str_split sep [] = [[]]"
| "str_split sep (c # cs) =
     (if c = sep then [] # str_split sep cs
      else (case str_split sep cs of
              [] \<Rightarrow> [[c]]
            | w # ws \<Rightarrow> (c # w) # ws))"

fun join_str :: "string \<Rightarrow> string list \<Rightarrow> string" where
  "join_str sep [] = []"
| "join_str sep [p] = p"
| "join_str sep (p # ps) = p @ sep @ join_str sep ps"

text \<open>
  \<^verbatim>\<open>trim\<close> removes white space and line terminators from both ends: U+0009 to U+000D,
  U+0020, U+00A0, U+1680, U+2000 to U+200A, U+2028, U+2029, U+202F, U+205F, U+3000 and
  U+FEFF, listed here by their UTF-8 bytes. No encoding is the prefix or the suffix of
  another character's, so stripping whole encodings from either end strips characters.
\<close>

definition js_whitespace :: "string list" where
  "js_whitespace =
     map (\<lambda>c. [c]) [CHR 0x09, CHR 0x0A, CHR 0x0B, CHR 0x0C, CHR 0x0D, CHR 0x20]
     @ [[CHR 0xC2, CHR 0xA0], [CHR 0xE1, CHR 0x9A, CHR 0x80]]
     @ map (\<lambda>c. [CHR 0xE2, CHR 0x80, c])
         [CHR 0x80, CHR 0x81, CHR 0x82, CHR 0x83, CHR 0x84, CHR 0x85, CHR 0x86, CHR 0x87,
          CHR 0x88, CHR 0x89, CHR 0x8A, CHR 0xA8, CHR 0xA9, CHR 0xAF]
     @ [[CHR 0xE2, CHR 0x81, CHR 0x9F], [CHR 0xE3, CHR 0x80, CHR 0x80], [CHR 0xEF, CHR 0xBB, CHR 0xBF]]"

function strip_prefixes :: "string list \<Rightarrow> string \<Rightarrow> string" where
  "strip_prefixes ws s =
     (let found = find (\<lambda>w. w \<noteq> [] \<and> startsWith s w) ws
      in if found = None then s else strip_prefixes ws (drop (length (the found)) s))"
  by pat_completeness auto
termination
proof (relation "measure (\<lambda>(ws, s). length s)")
  show "wf (measure (\<lambda>(ws :: string list, s :: string). length s))" by simp
next
  fix ws :: "string list" and s :: string and found :: "string option"
  assume "found = find (\<lambda>w. w \<noteq> [] \<and> startsWith s w) ws" and "found \<noteq> None"
  then obtain w where w: "find (\<lambda>w. w \<noteq> [] \<and> startsWith s w) ws = Some w" "found = Some w"
    by auto
  then have "w \<noteq> []" and "take (length w) s = w"
    by (auto simp: find_Some_iff startsWith_def)
  then have "0 < length w" and "s \<noteq> []" by auto
  then show "((ws, drop (length (the found)) s), (ws, s)) \<in> measure (\<lambda>(ws, s). length s)"
    using w(2) by simp
qed

definition str_trim :: "string \<Rightarrow> string" where
  "str_trim s = rev (strip_prefixes (map rev js_whitespace) (rev (strip_prefixes js_whitespace s)))"

text \<open>\<^verbatim>\<open>new TextEncoder().encode(s)\<close>, \<^verbatim>\<open>String.fromCharCode(...bytes)\<close> and
  \<^verbatim>\<open>Uint8Array.from(s, c => c.charCodeAt(0))\<close>.\<close>

definition TextEncoder_encode :: "string \<Rightarrow> byte list" where
  "TextEncoder_encode s = map of_char s"

definition fromCharCode :: "byte list \<Rightarrow> string" where
  "fromCharCode bs = map (\<lambda>b. char_of (unat b)) bs"

definition charCodes :: "string \<Rightarrow> byte list" where
  "charCodes s = map of_char s"

text \<open>Decimal rendering of a number inside a template literal.\<close>

function show_nat :: "nat \<Rightarrow> string" where
  "show_nat n =
     (if n < 10 then [''0123456789'' ! n]
      else show_nat (n div 10) @ [''0123456789'' ! (n mod 10)])"
  by pat_completeness auto
termination
  by (relation "measure id") auto

definition show_int :: "int \<Rightarrow> string" where
  "show_int i = (if i < 0 then CHR ''-'' # show_nat (nat (- i)) else show_nat (nat i))"

subsection \<open>Base64: \<^verbatim>\<open>btoa\<close> and \<^verbatim>\<open>atob\<close>\<close>

definition b64_alphabet :: string where
  "b64_alphabet = ''ABCDEFGHIJKLMNOPQRSTUVWXYZabcdefghijklmnopqrstuvwxyz0123456789+/''"

definition b64_char :: "nat \<Rightarrow> char" where
  "b64_char n = b64_alphabet ! n"

fun index_of :: "'a \<Rightarrow> 'a list \<Rightarrow> nat option" where
  "index_of x [] = None"
| "index_of x (y # ys) = (if x = y then Some 0 else map_option Suc (index_of x ys))"

definition b64_val :: "char \<Rightarrow> nat option" where
  "b64_val c = index_of c b64_alphabet"

text \<open>\<^verbatim>\<open>btoa\<close>: three bytes to four characters, the last group padded with \<open>=\<close>.\<close>

fun btoa :: "string \<Rightarrow> string" where
  "btoa [] = []"
| "btoa [a] =
     (let x = of_char a :: nat
      in [b64_char (x div 4), b64_char ((x mod 4) * 16), CHR ''='', CHR ''=''])"
| "btoa [a, b] =
     (let x = of_char a :: nat; y = of_char b :: nat
      in [b64_char (x div 4), b64_char ((x mod 4) * 16 + y div 16),
          b64_char ((y mod 16) * 4), CHR ''=''])"
| "btoa (a # b # c # rest) =
     (let x = of_char a :: nat; y = of_char b :: nat; z = of_char c :: nat
      in [b64_char (x div 4), b64_char ((x mod 4) * 16 + y div 16),
          b64_char ((y mod 16) * 4 + z div 64), b64_char (z mod 64)]) @ btoa rest"

text \<open>
  \<^verbatim>\<open>atob\<close> is the forgiving-base64 decode of the HTML standard: ASCII white space is
  removed; when the length is then a multiple of four, one or two trailing \<open>=\<close> are
  removed; a length of 1 modulo 4 or a character outside the alphabet is a failure
  (\<^verbatim>\<open>InvalidCharacterError\<close>, here \<open>None\<close>); the 6-bit groups are then packed into
  bytes, the 2 or 4 bits left over at the end being dropped.
\<close>

definition ascii_whitespace :: "char \<Rightarrow> bool" where
  "ascii_whitespace c = (of_char c \<in> {9, 10, 12, 13, 32 :: nat})"

fun strip_padding :: "string \<Rightarrow> string" where
  "strip_padding [] = []"
| "strip_padding [c] = (if c = CHR ''='' then [] else [c])"
| "strip_padding [c, d] =
     (if d = CHR ''='' then (if c = CHR ''='' then [] else [c]) else [c, d])"
| "strip_padding (c # cs) = c # strip_padding cs"

fun sextets_to_bytes :: "nat list \<Rightarrow> string" where
  "sextets_to_bytes (a # b # c # d # rest) =
     [char_of (a * 4 + b div 16), char_of ((b mod 16) * 16 + c div 4),
      char_of ((c mod 4) * 64 + d)] @ sextets_to_bytes rest"
| "sextets_to_bytes [a, b, c] =
     [char_of (a * 4 + b div 16), char_of ((b mod 16) * 16 + c div 4)]"
| "sextets_to_bytes [a, b] = [char_of (a * 4 + b div 16)]"
| "sextets_to_bytes _ = []"

definition atob :: "string \<Rightarrow> string option" where
  "atob input =
     (let data = filter (\<lambda>c. \<not> ascii_whitespace c) input;
          data = (if length data mod 4 = 0 then strip_padding data else data)
      in if length data mod 4 = 1 then None
         else map_option sextets_to_bytes (those (map b64_val data)))"

subsection \<open>\<^verbatim>\<open>encodeURIComponent\<close> and \<^verbatim>\<open>decodeURIComponent\<close>\<close>

definition uri_unreserved :: "char \<Rightarrow> bool" where
  "uri_unreserved c =
     (c \<in> set (take 62 b64_alphabet) \<or> c \<in> set ''-_.!~*'' \<or> c \<in> set [CHR 0x27, CHR ''('', CHR '')''])"

definition hex_digit :: "nat \<Rightarrow> char" where
  "hex_digit n = ''0123456789ABCDEF'' ! n"

definition encodeURIComponent :: "string \<Rightarrow> string" where
  "encodeURIComponent s =
     concat (map (\<lambda>c. if uri_unreserved c then [c]
                      else [CHR ''%'', hex_digit (of_char c div 16), hex_digit (of_char c mod 16)]) s)"

definition hex_val :: "char \<Rightarrow> nat option" where
  "hex_val c =
     (case index_of c ''0123456789ABCDEF'' of
        Some n \<Rightarrow> Some n
      | None \<Rightarrow> map_option (\<lambda>n. n + 10) (index_of c ''abcdef''))"

text \<open>First pass: every \<open>%XX\<close> becomes an escaped byte; a \<open>%\<close> without two hexadecimal
  digits is a \<^verbatim>\<open>URIError\<close>.\<close>

fun pct_tokens :: "string \<Rightarrow> (bool \<times> nat) list option" where
  "pct_tokens [] = Some []"
| "pct_tokens (c # cs) =
     (if c = CHR ''%'' then
        (case cs of
           h1 # h2 # rest \<Rightarrow>
             (case (hex_val h1, hex_val h2) of
                (Some a, Some b) \<Rightarrow> map_option (Cons (True, a * 16 + b)) (pct_tokens rest)
              | _ \<Rightarrow> None)
         | _ \<Rightarrow> None)
      else map_option (Cons (False, of_char c)) (pct_tokens cs))"

definition cont_byte :: "nat \<Rightarrow> bool" where
  "cont_byte b = (0x80 \<le> b \<and> b \<le> 0xBF)"

fun valid_utf8_seq :: "nat list \<Rightarrow> bool" where
  "valid_utf8_seq [a, b] = (0xC2 \<le> a \<and> a \<le> 0xDF \<and> cont_byte b)"
| "valid_utf8_seq [a, b, c] =
     ((a = 0xE0 \<and> 0xA0 \<le> b \<and> b \<le> 0xBF \<and> cont_byte c)
      \<or> (0xE1 \<le> a \<and> a \<le> 0xEC \<and> cont_byte b \<and> cont_byte c)
      \<or> (a = 0xED \<and> 0x80 \<le> b \<and> b \<le> 0x9F \<and> cont_byte c)
      \<or> (0xEE \<le> a \<and> a \<le> 0xEF \<and> cont_byte b \<and> cont_byte c))"
| "valid_utf8_seq [a, b, c, d] =
     ((a = 0xF0 \<and> 0x90 \<le> b \<and> b \<le> 0xBF \<and> cont_byte c \<and> cont_byte d)
      \<or> (0xF1 \<le> a \<and> a \<le> 0xF3 \<and> cont_byte b \<and> cont_byte c \<and> cont_byte d)
      \<or> (a = 0xF4 \<and> 0x80 \<le> b \<and> b \<le> 0x8F \<and> cont_byte c \<and> cont_byte d))"
| "valid_utf8_seq _ = False"

definition utf8_length :: "nat \<Rightarrow> nat" where
  "utf8_length b =
     (if b < 0x80 then 0 else if b < 0xC0 then 1 else if b < 0xE0 then 2
      else if b < 0xF0 then 3 else if b < 0xF8 then 4 else 5)"

text \<open>Second pass: an escaped byte with the top bit set opens a sequence of \<open>n\<close> escaped
  bytes that must be the UTF-8 encoding of one code point.\<close>

function decode_tokens :: "(bool \<times> nat) list \<Rightarrow> string option" where
  "decode_tokens [] = Some []"
| "decode_tokens ((esc, b) # ts) =
     (if \<not> esc \<or> b < 0x80 then map_option (Cons (char_of b)) (decode_tokens ts)
      else
        (let n = utf8_length b; octets = take (n - 1) ts
         in if n = 1 \<or> n > 4 \<or> length octets < n - 1 \<or> \<not> list_all fst octets
               \<or> \<not> valid_utf8_seq (b # map snd octets)
            then None
            else map_option ((@) (map char_of (b # map snd octets)))
                   (decode_tokens (drop (n - 1) ts))))"
  by pat_completeness auto
termination
  by (relation "measure length") auto

definition decodeURIComponent :: "string \<Rightarrow> string option" where
  "decodeURIComponent s =
     (case pct_tokens s of None \<Rightarrow> None | Some ts \<Rightarrow> decode_tokens ts)"

subsection \<open>JavaScript values\<close>

text \<open>
  \<^verbatim>\<open>JSON.parse\<close> and \<^verbatim>\<open>c.req.json()\<close> return any JSON value, whatever type the
  handler declares for it. A number is an IEEE double; the type is left abstract, and
  what the code does with a number is asked of the platform below. The members of an
  object are in the order of the text; of two members with one key the later counts.
\<close>

typedecl js_number

datatype json =
    JNull
  | JBool bool
  | JNumber js_number
  | JString string
  | JArray "json list"
  | JObject "(string \<times> json) list"

text \<open>What reading a property gives: \<^verbatim>\<open>undefined\<close>, a method inherited from a built-in
  prototype, or a JSON value.\<close>

datatype js_value = Undefined | Builtin_function | Value json

text \<open>
  \<open>get_property v key\<close> is \<^verbatim>\<open>v.key\<close> for the three property names the handlers read,
  \<open>sub\<close>, \<open>username\<close> and \<open>password\<close>: reading a property of \<^verbatim>\<open>null\<close> throws; an object
  has its own members only, \<^verbatim>\<open>Object.prototype\<close> defining none of the three; of the
  other prototypes only \<^verbatim>\<open>String.prototype\<close> defines one, the method \<^verbatim>\<open>sub\<close>.
\<close>

fun get_property :: "json \<Rightarrow> string \<Rightarrow> exn + js_value" where
  "get_property JNull key = Inl TypeError"
| "get_property (JObject members) key =
     Inr (case map_of (rev members) key of Some v \<Rightarrow> Value v | None \<Rightarrow> Undefined)"
| "get_property (JString s) key = Inr (if key = ''sub'' then Builtin_function else Undefined)"
| "get_property v key = Inr Undefined"

subsection \<open>Bindings, rows and tokens (\<^verbatim>\<open>types.ts\<close>, \<^verbatim>\<open>schema.sql\<close>)\<close>

record env =
  JWT_SECRET :: "string option"
  ENVIRONMENT :: string

text \<open>One row of the table \<^verbatim>\<open>users\<close>: \<^verbatim>\<open>id\<close> is a 64-bit signed \<^verbatim>\<open>INTEGER\<close>, read
  with \<open>sint\<close>; \<^verbatim>\<open>token_slug\<close> and \<^verbatim>\<open>token_id\<close> are nullable. The store is the list
  of its rows.\<close>

record user =
  user_id :: "64 word"
  username :: string
  pass_hash :: string
  token_slug :: "string option"
  token_id :: "string option"
  storage_dir :: string
  created_at :: string

type_synonym users_table = "user list"

datatype jwt_payload =
    AccessTokenPayload (store: string) (exp: nat)
  | RefreshTokenPayload (sub: string) (store: string) (exp: nat)

text \<open>
  The library and platform functions that the code calls and that are not part of the
  repository are parameters of the model:
  \<^item> \<open>PBKDF2 password salt iterations bits\<close> is \<^verbatim>\<open>crypto.subtle.deriveBits\<close> with
    \<^verbatim>\<open>hash: 'SHA-256'\<close> on the imported key;
  \<^item> \<open>SignJWT payload secret\<close> is
    \<^verbatim>\<open>new jose.SignJWT(payload).setProtectedHeader({ alg: 'HS256' }).sign(secret)\<close>;
  \<^item> \<open>jwtVerify token secret now\<close> is \<^verbatim>\<open>jose.jwtVerify(token, secret)\<close> at clock
    reading \<open>now\<close>, \<open>None\<close> when it throws (malformed token, bad signature, expired);
  \<^item> \<open>JSON_parse text\<close> is \<^verbatim>\<open>JSON.parse(text)\<close>, \<open>None\<close> when it throws;
  \<^item> \<open>Number_falsy n\<close> says that the number is \<open>0\<close>, \<open>-0\<close> or \<^verbatim>\<open>NaN\<close>;
    \<open>Number_toString n\<close> is \<^verbatim>\<open>String(n)\<close>; \<open>d1_number_text n\<close> is the text that the
    store compares a \<^verbatim>\<open>TEXT\<close> column with when \<open>n\<close> is bound to the statement.
\<close>

record platform =
  PBKDF2 :: "byte list \<Rightarrow> byte list \<Rightarrow> nat \<Rightarrow> nat \<Rightarrow> byte list"
  SignJWT :: "jwt_payload \<Rightarrow> byte list \<Rightarrow> string"
  jwtVerify :: "string \<Rightarrow> byte list \<Rightarrow> nat \<Rightarrow> jwt_payload option"
  JSON_parse :: "string \<Rightarrow> json option"
  Number_falsy :: "js_number \<Rightarrow> bool"
  Number_toString :: "js_number \<Rightarrow> string"
  d1_number_text :: "js_number \<Rightarrow> string"

text \<open>\<^verbatim>\<open>!v\<close> is the negation of \<open>truthy\<close>.\<close>

fun truthy :: "platform \<Rightarrow> js_value \<Rightarrow> bool" where
  "truthy P Undefined = False"
| "truthy P Builtin_function = True"
| "truthy P (Value JNull) = False"
| "truthy P (Value (JBool b)) = b"
| "truthy P (Value (JNumber n)) = (\<not> Number_falsy P n)"
| "truthy P (Value (JString s)) = (s \<noteq> [])"
| "truthy P (Value (JArray xs)) = True"
| "truthy P (Value (JObject members)) = True"

text \<open>\<^verbatim>\<open>String(v)\<close>, which \<^verbatim>\<open>TextEncoder.encode\<close> applies to its argument; an array joins
  its elements with commas, \<^verbatim>\<open>null\<close> elements as empty strings.\<close>

fun to_string :: "platform \<Rightarrow> json \<Rightarrow> string" where
  "to_string P JNull = ''null''"
| "to_string P (JBool b) = (if b then ''true'' else ''false'')"
| "to_string P (JNumber n) = Number_toString P n"
| "to_string P (JString s) = s"
| "to_string P (JArray xs) =
     join_str '','' (map (\<lambda>x. case x of JNull \<Rightarrow> [] | _ \<Rightarrow> to_string P x) xs)"
| "to_string P (JObject members) = ''[object Object]''"

fun js_to_string :: "platform \<Rightarrow> js_value \<Rightarrow> string" where
  "js_to_string P Undefined = ''undefined''"
| "js_to_string P Builtin_function = ''function sub() { [native code] }''"
| "js_to_string P (Value v) = to_string P v"

text \<open>
  \<^verbatim>\<open>stmt.bind(v)\<close>: the store takes \<^verbatim>\<open>null\<close>, numbers, strings and booleans (as 1 and
  0) and throws \<^verbatim>\<open>D1_TYPE_ERROR\<close> on anything else. The result is the text that a
  \<^verbatim>\<open>TEXT\<close> column is compared with, \<open>None\<close> for \<^verbatim>\<open>NULL\<close>, which equals nothing.
\<close>

fun d1_bind :: "platform \<Rightarrow> js_value \<Rightarrow> exn + string option" where
  "d1_bind P (Value JNull) = Inr None"
| "d1_bind P (Value (JBool b)) = Inr (Some (if b then ''1'' else ''0''))"
| "d1_bind P (Value (JNumber n)) = Inr (Some (d1_number_text P n))"
| "d1_bind P (Value (JString s)) = Inr (Some s)"
| "d1_bind P v = Inl D1_TYPE_ERROR"

text \<open>
  A row's \<^verbatim>\<open>id\<close> reaches JavaScript as a number: the double nearest to the integer, ties
  to the even significand. Bound to a statement again it is compared with the
  \<^verbatim>\<open>INTEGER\<close> column by value.
\<close>

function bit_length :: "int \<Rightarrow> nat" where
  "bit_length n = (if n \<le> 0 then 0 else Suc (bit_length (n div 2)))"
  by pat_completeness auto
termination
  by (relation "measure nat") auto

definition to_double :: "int \<Rightarrow> int" where
  "to_double i =
     (let a = \<bar>i\<bar>; k = bit_length a - 53; q = a div 2 ^ k; r = a mod 2 ^ k;
          q' = (if 2 * r > 2 ^ k \<or> (2 * r = 2 ^ k \<and> odd q) then q + 1 else q)
      in sgn i * (q' * 2 ^ k))"

definition js_id :: "user \<Rightarrow> int" where
  "js_id u = to_double (sint (user_id u))"

subsection \<open>\<^verbatim>\<open>utils.ts\<close>\<close>

definition getJwtSecret :: "env \<Rightarrow> byte list" where
  "getJwtSecret e =
     (case JWT_SECRET e of
        Some s \<Rightarrow>
          if s \<noteq> [] then TextEncoder_encode s
          else TextEncoder_encode ''gbajs3-default-secret-change-in-production''
      | None \<Rightarrow> TextEncoder_encode ''gbajs3-default-secret-change-in-production'')"

text \<open>\<open>salt\<close> is what \<^verbatim>\<open>crypto.getRandomValues(new Uint8Array(16))\<close> returned.\<close>

definition hashPassword :: "platform \<Rightarrow> byte list \<Rightarrow> string \<Rightarrow> string" where
  "hashPassword P salt password =
     (let hash = PBKDF2 P (TextEncoder_encode password) salt 100000 256;
          saltB64 = btoa (fromCharCode salt);
          hashB64 = btoa (fromCharCode hash)
      in saltB64 @ '':'' @ hashB64)"

text \<open>The comparison loop: \<^verbatim>\<open>result |= hashArray[i] ^ expectedHash[i]\<close> for every index
  of \<open>hashArray\<close>; a read past the end of \<open>expectedHash\<close> is \<^verbatim>\<open>undefined\<close>, which
  \<^verbatim>\<open>^\<close> takes as 0.\<close>

text \<open>In \<open>verifyPassword\<close> the two destructured fields are tested with \<^verbatim>\<open>!\<close>, which is
  true of \<^verbatim>\<open>undefined\<close> (no such field) and of the empty string alike; \<open>[]\<close> stands
  for both. A rejected promise of \<open>verifyPassword\<close> is \<open>Inl\<close>.\<close>

fun compare_loop :: "byte list \<Rightarrow> byte list \<Rightarrow> 32 word \<Rightarrow> 32 word" where
  "compare_loop [] es result = result"
| "compare_loop (h # hs) [] result = compare_loop hs [] (result OR ucast h)"
| "compare_loop (h # hs) (e # es) result = compare_loop hs es (result OR ucast (h XOR e))"

definition verifyPassword :: "platform \<Rightarrow> string \<Rightarrow> string \<Rightarrow> exn + bool" where
  "verifyPassword P password storedHash =
     (if startsWith storedHash ''$2'' then Inr False
      else
        (let fields = str_split CHR '':'' storedHash;
             saltB64 = (case fields of s # _ \<Rightarrow> s | _ \<Rightarrow> []);
             hashB64 = (case fields of _ # h # _ \<Rightarrow> h | _ \<Rightarrow> [])
         in if saltB64 = [] \<or> hashB64 = [] then Inr False
            else
              (case atob saltB64 of
                 None \<Rightarrow> Inl InvalidCharacterError
               | Some saltStr \<Rightarrow>
                  (case atob hashB64 of
                     None \<Rightarrow> Inl InvalidCharacterError
                   | Some hashStr \<Rightarrow>
                      (let salt = charCodes saltStr;
                           expectedHash = charCodes hashStr;
                           hashArray = PBKDF2 P (TextEncoder_encode password) salt 100000 256
                       in if length hashArray \<noteq> length expectedHash then Inr False
                          else Inr (compare_loop hashArray expectedHash 0 = 0))))))"

text \<open>\<open>now\<close> is \<^verbatim>\<open>Date.now()\<close>, in milliseconds.\<close>

definition createAccessToken :: "platform \<Rightarrow> string \<Rightarrow> byte list \<Rightarrow> nat \<Rightarrow> string" where
  "createAccessToken P storageDir secret now =
     SignJWT P (AccessTokenPayload storageDir (now div 1000 + 5 * 60)) secret"

definition createRefreshToken :: "platform \<Rightarrow> string \<Rightarrow> string \<Rightarrow> string \<Rightarrow> nat \<Rightarrow> string" where
  "createRefreshToken P tokenId storageDir tokenSlug now =
     SignJWT P (RefreshTokenPayload tokenId storageDir (now div 1000 + 7 * 60 * 60))
       (TextEncoder_encode tokenSlug)"

definition verifyAccessToken :: "platform \<Rightarrow> string \<Rightarrow> byte list \<Rightarrow> nat \<Rightarrow> jwt_payload option" where
  "verifyAccessToken P token secret now = jwtVerify P token secret now"

definition verifyRefreshToken :: "platform \<Rightarrow> string \<Rightarrow> string \<Rightarrow> nat \<Rightarrow> jwt_payload option" where
  "verifyRefreshToken P token tokenSlug now = jwtVerify P token (TextEncoder_encode tokenSlug) now"

text \<open>The statements sent to the store. \<^verbatim>\<open>first()\<close> is the first matching row; a
  \<^verbatim>\<open>NULL\<close> column equals no bound value.\<close>

definition fetchUserByUsername :: "platform \<Rightarrow> users_table \<Rightarrow> js_value \<Rightarrow> exn + user option" where
  "fetchUserByUsername P db name =
     (case d1_bind P name of
        Inl err \<Rightarrow> Inl err
      | Inr None \<Rightarrow> Inr None
      | Inr (Some text) \<Rightarrow> Inr (find (\<lambda>r. username r = text) db))"

definition select_token_slug :: "users_table \<Rightarrow> string \<Rightarrow> string option" where
  "select_token_slug db text =
     (case find (\<lambda>r. token_id r = Some text) db of
        None \<Rightarrow> None
      | Some r \<Rightarrow> token_slug r)"

definition fetchTokenSlugByTokenId :: "platform \<Rightarrow> users_table \<Rightarrow> js_value \<Rightarrow> exn + string option" where
  "fetchTokenSlugByTokenId P db tokenId =
     (case d1_bind P tokenId of
        Inl err \<Rightarrow> Inl err
      | Inr None \<Rightarrow> Inr None
      | Inr (Some text) \<Rightarrow> Inr (select_token_slug db text))"

record d1_result =
  success :: bool
  changes :: "nat option"

text \<open>\<^verbatim>\<open>UPDATE users SET token_id = ?, token_slug = ? WHERE id = ?\<close> on one row, and
  on the table with the result object of \<^verbatim>\<open>run()\<close>; \<open>userId\<close> is the number bound.\<close>

definition set_token_fields :: "int \<Rightarrow> string \<Rightarrow> string \<Rightarrow> user \<Rightarrow> user" where
  "set_token_fields userId tokenId tokenSlug r =
     (if sint (user_id r) = userId
      then r\<lparr>token_id := Some tokenId, token_slug := Some tokenSlug\<rparr> else r)"

definition d1_run_update :: "users_table \<Rightarrow> int \<Rightarrow> string \<Rightarrow> string \<Rightarrow> users_table \<times> d1_result" where
  "d1_run_update db userId tokenId tokenSlug =
     (map (set_token_fields userId tokenId tokenSlug) db,
      \<lparr>success = True, changes = Some (length (filter (\<lambda>r. sint (user_id r) = userId) db))\<rparr>)"

definition updateUserTokenFields :: "users_table \<Rightarrow> int \<Rightarrow> string \<Rightarrow> string \<Rightarrow> users_table \<times> bool" where
  "updateUserTokenFields db userId tokenId tokenSlug =
     (case d1_run_update db userId tokenId tokenSlug of
        (db', result) \<Rightarrow>
          (db', success result \<and> (case changes result of None \<Rightarrow> 0 | Some n \<Rightarrow> n) > 0))"

text \<open>\<open>cookie_header\<close> is \<^verbatim>\<open>request.headers.get('Cookie')\<close>. \<open>json_body\<close> is the outcome
  of \<^verbatim>\<open>c.req.json()\<close>: \<open>None\<close> when the body is not JSON and the call throws, otherwise
  the value parsed.\<close>

record request =
  cookie_header :: "string option"
  json_body :: "json option"

fun getCookie_loop :: "string list \<Rightarrow> string \<Rightarrow> exn + string option" where
  "getCookie_loop [] name = Inr None"
| "getCookie_loop (cookie # cookies) name =
     (case str_split CHR ''='' cookie of
        [] \<Rightarrow> getCookie_loop cookies name
      | key # rest \<Rightarrow>
          if key = name then
            (case decodeURIComponent (case rest of [] \<Rightarrow> ''undefined'' | v # _ \<Rightarrow> v) of
               None \<Rightarrow> Inl URIError
             | Some v \<Rightarrow> Inr (Some v))
          else getCookie_loop cookies name)"

definition getCookie :: "request \<Rightarrow> string \<Rightarrow> exn + string option" where
  "getCookie req name =
     (case cookie_header req of
        None \<Rightarrow> Inr None
      | Some cookieHeader \<Rightarrow>
          if cookieHeader = [] then Inr None
          else getCookie_loop (map str_trim (str_split CHR '';'' cookieHeader)) name)"

datatype same_site = Strict | Lax | NoneSite

fun show_same_site :: "same_site \<Rightarrow> string" where
  "show_same_site Strict = ''Strict''"
| "show_same_site Lax = ''Lax''"
| "show_same_site NoneSite = ''None''"

record cookie_options =
  path :: "string option"
  maxAge :: "int option"
  httpOnly :: "bool option"
  secure :: "bool option"
  sameSite :: "same_site option"

definition createCookie :: "string \<Rightarrow> string \<Rightarrow> cookie_options \<Rightarrow> string" where
  "createCookie name val options =
     join_str ''; ''
       ([name @ ''='' @ encodeURIComponent val]
        @ (case path options of Some p \<Rightarrow> if p \<noteq> [] then [''Path='' @ p] else [] | None \<Rightarrow> [])
        @ (case maxAge options of Some a \<Rightarrow> [''Max-Age='' @ show_int a] | None \<Rightarrow> [])
        @ (if httpOnly options = Some True then [''HttpOnly''] else [])
        @ (if secure options = Some True then [''Secure''] else [])
        @ (case sameSite options of Some s \<Rightarrow> [''SameSite='' @ show_same_site s] | None \<Rightarrow> []))"

subsection \<open>The handlers (\<^verbatim>\<open>routes/auth.ts\<close>, \<^verbatim>\<open>routes/tokens.ts\<close>)\<close>

datatype response_body =
    ErrorJson string
  | StringJson string
  | PlainText string

text \<open>\<open>ErrorJson m\<close> is the JSON object \<^verbatim>\<open>{ error: m }\<close>, \<open>StringJson s\<close> the JSON string
  \<open>s\<close>; \<open>headers\<close> are the headers the handler passes besides the content type.\<close>

record response =
  status :: nat
  body :: response_body
  headers :: "(string \<times> string) list"

definition json_error :: "string \<Rightarrow> nat \<Rightarrow> response" where
  "json_error msg code = \<lparr>status = code, body = ErrorJson msg, headers = []\<rparr>"

text \<open>
  \<^verbatim>\<open>POST /api/account/login\<close>. \<open>newTokenId\<close> and \<open>newTokenSlug\<close> are the two results
  of \<^verbatim>\<open>generateUUID()\<close>. The handler suspends between its \<^verbatim>\<open>SELECT\<close> and its
  \<^verbatim>\<open>UPDATE\<close>; \<open>others\<close> is what the statements of other requests, which the store
  runs in between, did to the table (the identity when the request runs alone). Every
  exception inside the \<^verbatim>\<open>try\<close> block ends in its \<^verbatim>\<open>catch\<close>. \<open>verifyPassword\<close> uses
  its first argument only as the argument of \<^verbatim>\<open>encoder.encode\<close>, which takes it as a
  string.
\<close>

definition login ::
  "platform \<Rightarrow> env \<Rightarrow> request \<Rightarrow> users_table \<Rightarrow> (users_table \<Rightarrow> users_table)
     \<Rightarrow> string \<Rightarrow> string \<Rightarrow> nat \<Rightarrow> response \<times> users_table" where
  "login P e req db others newTokenId newTokenSlug now =
     (case json_body req of
        None \<Rightarrow> (json_error ''Internal server error'' 500, db)
      | Some body_json \<Rightarrow>
         (case get_property body_json ''username'' of
            Inl err \<Rightarrow> (json_error ''Internal server error'' 500, db)
          | Inr body_username \<Rightarrow>
             if \<not> truthy P body_username then (json_error ''Missing credentials'' 400, db)
             else
              (case get_property body_json ''password'' of
                 Inl err \<Rightarrow> (json_error ''Internal server error'' 500, db)
               | Inr body_password \<Rightarrow>
                  if \<not> truthy P body_password then (json_error ''Missing credentials'' 400, db)
                  else
                   (case fetchUserByUsername P db body_username of
                      Inl err \<Rightarrow> (json_error ''Internal server error'' 500, db)
                    | Inr None \<Rightarrow> (json_error ''Unauthorized'' 401, db)
                    | Inr (Some u) \<Rightarrow>
                       (case verifyPassword P (js_to_string P body_password) (pass_hash u) of
                          Inl err \<Rightarrow> (json_error ''Internal server error'' 500, db)
                        | Inr validPassword \<Rightarrow>
                           if \<not> validPassword then (json_error ''Unauthorized'' 401, db)
                           else
                            (case updateUserTokenFields (others db) (js_id u) newTokenId newTokenSlug of
                               (db', updated) \<Rightarrow>
                                 if \<not> updated then (json_error ''Internal server error'' 500, db')
                                 else
                                  (let secret = getJwtSecret e;
                                       accessToken = createAccessToken P (storage_dir u) secret now;
                                       refreshToken =
                                         createRefreshToken P newTokenId (storage_dir u) newTokenSlug now;
                                       cookie = createCookie ''refresh-tok'' refreshToken
                                         \<lparr>path = Some ''/api/tokens/refresh'',
                                          maxAge = Some (7 * 60 * 60),
                                          httpOnly = Some True,
                                          secure = Some True,
                                          sameSite = Some Strict\<rparr>
                                   in (\<lparr>status = 200, body = StringJson accessToken,
                                        headers = [(''Set-Cookie'', cookie)]\<rparr>, db'))))))))"

text \<open>\<^verbatim>\<open>POST /api/account/logout\<close>.\<close>

definition logout :: "users_table \<Rightarrow> response \<times> users_table" where
  "logout db =
     (let cookie = createCookie ''refresh-tok'' []
        \<lparr>path = Some ''/api/tokens/refresh'',
         maxAge = Some (- 1),
         httpOnly = Some True,
         secure = Some True,
         sameSite = Some Strict\<rparr>
      in (\<lparr>status = 200, body = PlainText ''Logged out'',
           headers = [(''Set-Cookie'', cookie)]\<rparr>, db))"

text \<open>\<^verbatim>\<open>POST /api/tokens/refresh\<close>. The inner \<^verbatim>\<open>try\<close> covers \<^verbatim>\<open>JSON.parse(atob(...))\<close>
  only; reading \<^verbatim>\<open>payload.sub\<close> and the lookup are under the outer one.\<close>

definition refresh ::
  "platform \<Rightarrow> env \<Rightarrow> request \<Rightarrow> users_table \<Rightarrow> nat \<Rightarrow> response \<times> users_table" where
  "refresh P e req db now =
     (case getCookie req ''refresh-tok'' of
        Inl err \<Rightarrow> (json_error ''Internal server error'' 500, db)
      | Inr cookie \<Rightarrow>
          if cookie \<in> {None, Some []} then (json_error ''No refresh token'' 401, db)
          else
            (let refreshToken = the cookie;
                 parts = str_split CHR ''.'' refreshToken
             in if length parts \<noteq> 3 then (json_error ''Invalid token format'' 401, db)
                else
                  (case Option.bind (atob (parts ! 1)) (JSON_parse P) of
                     None \<Rightarrow> (json_error ''Invalid token'' 401, db)
                   | Some payload \<Rightarrow>
                      (case get_property payload ''sub'' of
                         Inl err \<Rightarrow> (json_error ''Internal server error'' 500, db)
                       | Inr payload_sub \<Rightarrow>
                          if \<not> truthy P payload_sub
                          then (json_error ''Invalid token payload'' 401, db)
                          else
                           (case fetchTokenSlugByTokenId P db payload_sub of
                              Inl err \<Rightarrow> (json_error ''Internal server error'' 500, db)
                            | Inr tokenSlug \<Rightarrow>
                               if tokenSlug \<in> {None, Some []}
                               then (json_error ''Token not found'' 401, db)
                               else
                                (case verifyRefreshToken P refreshToken (the tokenSlug) now of
                                   None \<Rightarrow> (json_error ''Invalid or expired token'' 401, db)
                                 | Some claims \<Rightarrow>
                                    (let secret = getJwtSecret e;
                                         accessToken = createAccessToken P (store claims) secret now
                                     in (\<lparr>status = 200, body = StringJson accessToken,
                                          headers = []\<rparr>, db))))))))"

subsection \<open>Reachable stores and refresh slots\<close>

text \<open>
  The rows are created out of band under the schema's \<^verbatim>\<open>PRIMARY KEY\<close> constraint on
  \<^verbatim>\<open>id\<close>; from there the store changes only through the handlers.
\<close>

inductive reachable :: "platform \<Rightarrow> env \<Rightarrow> users_table \<Rightarrow> bool" for P :: platform and e :: env where
  initial: "distinct (map user_id db) \<Longrightarrow> reachable P e db"
| after_login:
    "reachable P e db \<Longrightarrow> reachable P e (snd (login P e req db (\<lambda>d. d) newTokenId newTokenSlug now))"
| after_refresh: "reachable P e db \<Longrightarrow> reachable P e (snd (refresh P e req db now))"
| after_logout: "reachable P e db \<Longrightarrow> reachable P e (snd (logout db))"

text \<open>The slots of user \<open>uid\<close> under which the refresh handler can accept a token: the
  pair is on the user's row, and the lookup by the token id returns the slug.\<close>

definition valid_slots :: "users_table \<Rightarrow> 64 word \<Rightarrow> (string \<times> string) set" where
  "valid_slots db uid =
     {(tokenId, tokenSlug). tokenId \<noteq> [] \<and> tokenSlug \<noteq> []
        \<and> select_token_slug db tokenId = Some tokenSlug
        \<and> (\<exists>r \<in> set db. user_id r = uid \<and> token_id r = Some tokenId \<and> token_slug r = Some tokenSlug)}"

subsection \<open>A small platform and store for concrete instances\<close>

text \<open>
  A stand-in for the platform: the key derivation pads and cuts its input to the
  requested length; a token is three base64 fields holding the storage claim, the subject
  and the key, and verifies under exactly that key; the unverified parse reads the
  subject.
\<close>

definition toy_platform :: platform where
  "toy_platform =
     \<lparr>PBKDF2 = (\<lambda>password salt iterations bits.
          take (bits div 8) (password @ salt @ replicate (bits div 8) 0)),
      SignJWT = (\<lambda>payload secret.
          btoa (store payload) @ ''.''
          @ btoa (case payload of RefreshTokenPayload s _ _ \<Rightarrow> s | AccessTokenPayload _ _ \<Rightarrow> [])
          @ ''.'' @ btoa (fromCharCode secret)),
      jwtVerify = (\<lambda>token secret now.
          case map atob (str_split CHR ''.'' token) of
            [Some st, Some sb, Some k] \<Rightarrow>
              if charCodes k = secret
              then Some (if sb = [] then AccessTokenPayload st 0 else RefreshTokenPayload sb st 0)
              else None
          | _ \<Rightarrow> None),
      JSON_parse = (\<lambda>text. Some (JObject [(''sub'', JString text)])),
      Number_falsy = (\<lambda>n. False),
      Number_toString = (\<lambda>n. ''1''),
      d1_number_text = (\<lambda>n. ''1'')\<rparr>"

definition toy_env :: env where
  "toy_env = \<lparr>JWT_SECRET = None, ENVIRONMENT = ''production''\<rparr>"

definition alice :: user where
  "alice =
     \<lparr>user_id = 1, username = ''alice'',
      pass_hash = hashPassword toy_platform (replicate 16 7) ''correct-password'',
      token_slug = None, token_id = None, storage_dir = ''dir-a'',
      created_at = ''2024-01-01 00:00:00''\<rparr>"

definition credentials :: "string \<Rightarrow> string \<Rightarrow> json" where
  "credentials name password = JObject [(''username'', JString name), (''password'', JString password)]"

definition alice_login :: request where
  "alice_login = \<lparr>cookie_header = None, json_body = Some (credentials ''alice'' ''correct-password'')\<rparr>"

definition with_cookie :: "string \<Rightarrow> request" where
  "with_cookie c = \<lparr>cookie_header = Some c, json_body = None\<rparr>"

section \<open>Base64 and string lemmas\<close>

lemma of_char_char_of_byte: "of_char (char_of (unat (b::byte))) = b"
proof -
  have "unat b < 256" using unsigned_less [of b] by simp
  then have n: "(of_char (char_of (unat b)) :: nat) = unat b" by (simp add: of_char_of)
  have "of_char (char_of (unat b)) = (of_nat (of_char (char_of (unat b)) :: nat) :: byte)"
    by (simp only: of_nat_of_char)
  also have "\<dots> = of_nat (unat b)" by (simp only: n)
  also have "\<dots> = b" by simp
  finally show ?thesis .
qed

lemma charCodes_fromCharCode: "charCodes (fromCharCode bs) = bs"
  by (induction bs) (simp_all add: charCodes_def fromCharCode_def of_char_char_of_byte)

lemma b64_table:
  "\<forall>n\<in>{0..<64}. b64_val (b64_char n) = Some n \<and> b64_char n \<noteq> CHR ''='' \<and> \<not> ascii_whitespace (b64_char n)"
  by code_simp

lemma b64_val_char: "n < 64 \<Longrightarrow> b64_val (b64_char n) = Some n"
  using b64_table by simp

lemma b64_char_not_pad: "n < 64 \<Longrightarrow> b64_char n \<noteq> CHR ''=''"
  using b64_table by simp

lemma b64_char_not_ws: "n < 64 \<Longrightarrow> \<not> ascii_whitespace (b64_char n)"
  using b64_table by simp

lemma pad_not_ws: "\<not> ascii_whitespace CHR ''=''"
  by (simp add: ascii_whitespace_def)

lemma sextet_bounds:
  fixes x y z :: nat
  assumes "x < 256" "y < 256" "z < 256"
  shows "x div 4 < 64" "(x mod 4) * 16 + y div 16 < 64" "(y mod 16) * 4 + z div 64 < 64" "z mod 64 < 64"
    "(x mod 4) * 16 < 64" "(y mod 16) * 4 < 64"
  using assms by auto

lemmas sextet_lt = sextet_bounds [OF nat_of_char_less_256 nat_of_char_less_256 nat_of_char_less_256]

lemma length_btoa: "length (btoa s) mod 4 = 0"
  by (induction s rule: btoa.induct) (simp_all add: Let_def)

lemma btoa_no_ws: "filter (\<lambda>c. \<not> ascii_whitespace c) (btoa s) = btoa s"
  by (induction s rule: btoa.induct)
     (simp_all add: Let_def b64_char_not_ws pad_not_ws sextet_lt)

lemma those_append:
  "those (xs @ ys) = (case those xs of None \<Rightarrow> None | Some a \<Rightarrow> map_option ((@) a) (those ys))"
proof (induction xs)
  case Nil
  show ?case by (cases "those ys") simp_all
next
  case (Cons x xs)
  then show ?case by (cases x; cases "those xs"; cases "those ys") simp_all
qed

lemma byte_regroup:
  fixes x y z :: nat
  assumes "x < 256" "y < 256" "z < 256"
  shows "x div 4 * 4 + (x mod 4 * 16 + y div 16) div 16 = x"
    "(x mod 4 * 16 + y div 16) mod 16 * 16 + (y mod 16 * 4 + z div 64) div 4 = y"
    "(y mod 16 * 4 + z div 64) mod 4 * 64 + z mod 64 = z"
    "x div 4 * 4 + (x mod 4 * 16) div 16 = x"
    "(x mod 4 * 16 + y div 16) mod 16 * 16 + (y mod 16 * 4) div 4 = y"
proof -
  have a: "y div 16 < 16" "z div 64 < 4" using assms by auto
  show "x div 4 * 4 + (x mod 4 * 16 + y div 16) div 16 = x" using a by simp
  show "(x mod 4 * 16 + y div 16) mod 16 * 16 + (y mod 16 * 4 + z div 64) div 4 = y" using a by simp
  show "(y mod 16 * 4 + z div 64) mod 4 * 64 + z mod 64 = z" using a by simp
  show "x div 4 * 4 + (x mod 4 * 16) div 16 = x" by simp
  show "(x mod 4 * 16 + y div 16) mod 16 * 16 + (y mod 16 * 4) div 4 = y" using a by simp
qed

lemmas char_regroup = byte_regroup [OF nat_of_char_less_256 nat_of_char_less_256 nat_of_char_less_256]

lemma those_length: "those xs = Some ys \<Longrightarrow> length ys = length xs"
  by (induction xs arbitrary: ys) (auto split: option.splits)

lemma decode_group:
  fixes x y z :: nat
  assumes "x < 256" "y < 256" "z < 256"
  shows "sextets_to_bytes ([x div 4, x mod 4 * 16 + y div 16, y mod 16 * 4 + z div 64, z mod 64] @ vs)
           = [char_of x, char_of y, char_of z] @ sextets_to_bytes vs"
    and "sextets_to_bytes [x div 4, x mod 4 * 16 + y div 16, y mod 16 * 4] = [char_of x, char_of y]"
    and "sextets_to_bytes [x div 4, x mod 4 * 16] = [char_of x]"
  by (simp_all only: sextets_to_bytes.simps append.simps byte_regroup [OF assms])

lemmas decode_chars =
  decode_group [OF nat_of_char_less_256 nat_of_char_less_256 nat_of_char_less_256, unfolded char_of_char]

lemma strip_padding_keep:
  "length ys \<ge> 2 \<Longrightarrow> strip_padding (x # ys) = x # strip_padding ys"
  by (cases ys rule: strip_padding.cases) auto

lemma btoa_empty_or_long: "btoa s = [] \<or> length (btoa s) \<ge> 4"
  by (cases s rule: btoa.cases) (simp_all add: Let_def)

lemma decode_btoa:
  "\<exists>vs. those (map b64_val (strip_padding (btoa s))) = Some vs
        \<and> length vs mod 4 \<noteq> 1 \<and> sextets_to_bytes vs = s"
proof (induction s rule: btoa.induct)
  case 1
  show ?case by simp
next
  case (2 a)
  have "strip_padding (btoa [a]) = map b64_char [of_char a div 4, of_char a mod 4 * 16]"
    by (simp add: Let_def b64_char_not_pad sextet_lt)
  then show ?case
    by (simp add: b64_val_char sextet_lt decode_chars del: sextets_to_bytes.simps)
next
  case (3 a b)
  have "strip_padding (btoa [a, b])
          = map b64_char [of_char a div 4, of_char a mod 4 * 16 + of_char b div 16, of_char b mod 16 * 4]"
    by (simp add: Let_def b64_char_not_pad sextet_lt)
  then show ?case
    by (simp add: b64_val_char sextet_lt decode_chars del: sextets_to_bytes.simps)
next
  case (4 a b c rest)
  then obtain vs where vs: "those (map b64_val (strip_padding (btoa rest))) = Some vs"
    "length vs mod 4 \<noteq> 1" "sextets_to_bytes vs = rest"
    by blast
  let ?q = "[of_char a div 4, of_char a mod 4 * 16 + of_char b div 16,
             of_char b mod 16 * 4 + of_char c div 64, of_char c mod 64 :: nat]"
  have grp: "btoa (a # b # c # rest) = map b64_char ?q @ btoa rest"
    by (simp add: Let_def)
  have "strip_padding (map b64_char ?q @ btoa rest) = map b64_char ?q @ strip_padding (btoa rest)"
  proof (cases "btoa rest = []")
    case True
    then show ?thesis by (simp add: b64_char_not_pad sextet_lt)
  next
    case False
    then have "length (btoa rest) \<ge> 4" using btoa_empty_or_long [of rest] by simp
    then show ?thesis by (simp add: strip_padding_keep)
  qed
  then have split: "strip_padding (btoa (a # b # c # rest)) = map b64_char ?q @ strip_padding (btoa rest)"
    by (simp only: grp)
  have q: "those (map b64_val (map b64_char ?q)) = Some ?q"
    by (simp add: b64_val_char sextet_lt)
  have "those (map b64_val (strip_padding (btoa (a # b # c # rest)))) = Some (?q @ vs)"
    unfolding split map_append those_append q using vs(1) by simp
  moreover have "sextets_to_bytes (?q @ vs) = a # b # c # rest"
    using vs(3) by (simp only: decode_chars) simp
  moreover have "length (?q @ vs) mod 4 \<noteq> 1" using vs(2) by simp
  ultimately show ?case by blast
qed

lemma atob_btoa: "atob (btoa s) = Some s"
proof -
  obtain vs where vs: "those (map b64_val (strip_padding (btoa s))) = Some vs"
    "length vs mod 4 \<noteq> 1" "sextets_to_bytes vs = s"
    using decode_btoa by blast
  have "length (strip_padding (btoa s)) = length vs"
    using those_length [OF vs(1)] by simp
  then show ?thesis
    using vs by (simp add: atob_def btoa_no_ws length_btoa Let_def)
qed

section \<open>Password hashing\<close>

lemma b64_table2:
  "\<forall>n\<in>{0..<64}. b64_char n \<noteq> CHR '':'' \<and> b64_char n \<noteq> CHR ''$''"
  by code_simp

lemma btoa_chars: "c \<in> set (btoa s) \<Longrightarrow> c \<noteq> CHR '':'' \<and> c \<noteq> CHR ''$''"
  using b64_table2
  by (induction s rule: btoa.induct) (auto simp: Let_def sextet_lt)

lemma btoa_nonempty: "s \<noteq> [] \<Longrightarrow> btoa s \<noteq> []"
  by (cases s rule: btoa.cases) (simp_all add: Let_def)

lemma str_split_no_sep: "sep \<notin> set s \<Longrightarrow> str_split sep s = [s]"
  by (induction s) auto

lemma str_split_append: "sep \<notin> set xs \<Longrightarrow> str_split sep (xs @ sep # ys) = xs # str_split sep ys"
  by (induction xs) auto

lemma compare_loop_same: "compare_loop hs hs result = result"
  by (induction hs arbitrary: result) simp_all

lemma fromCharCode_nonempty: "bs \<noteq> [] \<Longrightarrow> fromCharCode bs \<noteq> []"
  by (simp add: fromCharCode_def)

lemma not_startsWith_bcrypt:
  assumes "s \<noteq> []"
  shows "\<not> startsWith (btoa s @ rest) ''$2''"
proof -
  obtain c cs where b: "btoa s = c # cs" using btoa_nonempty [OF assms] by (cases "btoa s") auto
  then have "c \<in> set (btoa s)" by simp
  then have "c \<noteq> CHR ''$''" using btoa_chars by blast
  then show ?thesis by (simp add: startsWith_def b)
qed

lemma verify_hash_roundtrip:
  assumes salt: "salt \<noteq> []"
    and out: "PBKDF2 P (TextEncoder_encode password) salt 100000 256 \<noteq> []"
  shows "verifyPassword P password (hashPassword P salt password) = Inr True"
proof -
  let ?hash = "PBKDF2 P (TextEncoder_encode password) salt 100000 256"
  let ?S = "btoa (fromCharCode salt)" and ?H = "btoa (fromCharCode ?hash)"
  have stored: "hashPassword P salt password = ?S @ CHR '':'' # ?H"
    by (simp add: hashPassword_def Let_def)
  have S: "?S \<noteq> []" and H: "?H \<noteq> []"
    using salt out by (simp_all add: btoa_nonempty fromCharCode_nonempty)
  have "CHR '':'' \<notin> set ?S" "CHR '':'' \<notin> set ?H" using btoa_chars by blast+
  then have fields: "str_split CHR '':'' (?S @ CHR '':'' # ?H) = [?S, ?H]"
    by (simp add: str_split_append str_split_no_sep)
  have legacy: "\<not> startsWith (?S @ CHR '':'' # ?H) ''$2''"
    using salt by (simp add: not_startsWith_bcrypt fromCharCode_nonempty)
  show ?thesis
    unfolding stored verifyPassword_def
    using S H legacy
    by (simp add: fields Let_def atob_btoa charCodes_fromCharCode compare_loop_same)
qed

section \<open>The handlers\<close>

lemma set_token_fields_keeps [simp]:
  "user_id (set_token_fields uid t s r) = user_id r"
  "username (set_token_fields uid t s r) = username r"
  "storage_dir (set_token_fields uid t s r) = storage_dir r"
  "pass_hash (set_token_fields uid t s r) = pass_hash r"
  "js_id (set_token_fields uid t s r) = js_id r"
  by (simp_all add: set_token_fields_def js_id_def)

lemma update_result:
  "updateUserTokenFields db uid t s
   = (map (set_token_fields uid t s) db, \<exists>r\<in>set db. sint (user_id r) = uid)"
  by (auto simp: updateUserTokenFields_def d1_run_update_def filter_empty_conv)

lemma update_zero_rows_unchanged:
  assumes "updateUserTokenFields db userId tokenId tokenSlug = (db', False)"
  shows "db' = db"
proof -
  have "\<forall>r\<in>set db. sint (user_id r) \<noteq> userId"
    and db': "db' = map (set_token_fields userId tokenId tokenSlug) db"
    using assms by (auto simp: update_result)
  then have "map (set_token_fields userId tokenId tokenSlug) db = db"
    by (simp add: map_idI set_token_fields_def)
  then show ?thesis using db' by simp
qed

lemma show_int_25200: "show_int 25200 = ''25200''"
  by (simp add: show_int_def)

lemma login_cookie:
  "createCookie ''refresh-tok'' tok
     \<lparr>path = Some ''/api/tokens/refresh'', maxAge = Some 25200, httpOnly = Some True,
      secure = Some True, sameSite = Some Strict\<rparr>
   = ''refresh-tok='' @ encodeURIComponent tok
     @ ''; Path=/api/tokens/refresh; Max-Age=25200; HttpOnly; Secure; SameSite=Strict''"
  unfolding createCookie_def by (simp add: show_int_25200 del: show_nat.simps)

lemma login_success:
  assumes "json_body req = Some body_json"
    and "get_property body_json ''username'' = Inr name" and "truthy P name"
    and "get_property body_json ''password'' = Inr password" and "truthy P password"
    and "fetchUserByUsername P db name = Inr (Some u)"
    and "verifyPassword P (js_to_string P password) (pass_hash u) = Inr True"
    and "updateUserTokenFields (others db) (js_id u) newTokenId newTokenSlug = (db', True)"
  shows "login P e req db others newTokenId newTokenSlug now
         = (\<lparr>status = 200,
             body = StringJson
               (SignJWT P (AccessTokenPayload (storage_dir u) (now div 1000 + 300)) (getJwtSecret e)),
             headers = [(''Set-Cookie'',
               ''refresh-tok=''
               @ encodeURIComponent
                   (SignJWT P (RefreshTokenPayload newTokenId (storage_dir u) (now div 1000 + 25200))
                      (TextEncoder_encode newTokenSlug))
               @ ''; Path=/api/tokens/refresh; Max-Age=25200; HttpOnly; Secure; SameSite=Strict'')]\<rparr>,
            db')"
  using assms
  by (simp add: login_def Let_def login_cookie createAccessToken_def createRefreshToken_def)

lemma login_zero_rows:
  assumes "json_body req = Some body_json"
    and "get_property body_json ''username'' = Inr name" and "truthy P name"
    and "get_property body_json ''password'' = Inr password" and "truthy P password"
    and "fetchUserByUsername P db name = Inr (Some u)"
    and "verifyPassword P (js_to_string P password) (pass_hash u) = Inr True"
    and "updateUserTokenFields (others db) (js_id u) newTokenId newTokenSlug = (db', False)"
  shows "login P e req db others newTokenId newTokenSlug now
         = (\<lparr>status = 500, body = ErrorJson ''Internal server error'', headers = []\<rparr>, others db)"
proof -
  have "db' = others db" using assms(8) by (rule update_zero_rows_unchanged)
  then show ?thesis
    using assms by (simp add: login_def json_error_def)
qed

lemma refresh_cases:
  "(\<exists>msg code. refresh P e req db now = (json_error msg code, db))
   \<or> (\<exists>claims. refresh P e req db now
         = (\<lparr>status = 200,
             body = StringJson (createAccessToken P (store claims) (getJwtSecret e) now),
             headers = []\<rparr>, db))"
  unfolding refresh_def Let_def
  by (auto split: sum.splits option.splits)

lemma find_map_row:
  "find p (map g xs) = map_option g (find (\<lambda>x. p (g x)) xs)"
  by (induction xs) auto

lemma select_slug_ignores_storage_dir:
  "select_token_slug (map (\<lambda>r. r\<lparr>storage_dir := f r\<rparr>) db) t = select_token_slug db t"
  by (simp add: select_token_slug_def find_map_row split: option.splits)

lemma fetch_slug_ignores_storage_dir:
  "fetchTokenSlugByTokenId P (map (\<lambda>r. r\<lparr>storage_dir := f r\<rparr>) db) v = fetchTokenSlugByTokenId P db v"
  by (simp add: fetchTokenSlugByTokenId_def select_slug_ignores_storage_dir
      split: sum.splits option.splits)

lemma refresh_ignores_storage_dir:
  "fst (refresh P e req (map (\<lambda>r. r\<lparr>storage_dir := f r\<rparr>) db) now) = fst (refresh P e req db now)"
  unfolding refresh_def Let_def fetch_slug_ignores_storage_dir
  by (auto split: sum.splits option.splits)

lemma refresh_success:
  assumes "status (fst (refresh P e req db now)) = 200"
  shows "\<exists>tok payload tokenId tokenSlug claims.
           getCookie req ''refresh-tok'' = Inr (Some tok)
         \<and> Option.bind (atob (str_split CHR ''.'' tok ! 1)) (JSON_parse P) = Some payload
         \<and> get_property payload ''sub'' = Inr tokenId
         \<and> truthy P tokenId
         \<and> fetchTokenSlugByTokenId P db tokenId = Inr (Some tokenSlug)
         \<and> verifyRefreshToken P tok tokenSlug now = Some claims
         \<and> fst (refresh P e req db now)
             = \<lparr>status = 200,
                body = StringJson (SignJWT P (AccessTokenPayload (store claims) (now div 1000 + 5 * 60))
                                     (getJwtSecret e)),
                headers = []\<rparr>"
  using assms unfolding refresh_def Let_def createAccessToken_def
  by (auto simp: json_error_def split: sum.splits option.splits if_splits)

lemma login_store:
  "snd (login P e req db (\<lambda>d. d) t s now) = db
   \<or> (\<exists>uid. snd (login P e req db (\<lambda>d. d) t s now) = map (set_token_fields uid t s) db)"
  unfolding login_def Let_def update_result
  by (auto split: option.splits sum.splits)

lemma login_success_inv:
  assumes "login P e req db (\<lambda>d. d) t s now = (resp, db')" and "status resp = 200"
    and "json_body req = Some body_json" and "get_property body_json ''username'' = Inr name"
    and "fetchUserByUsername P db name = Inr (Some u)"
  shows "db' = map (set_token_fields (js_id u) t s) db"
    and "headers resp = [(''Set-Cookie'', createCookie ''refresh-tok''
            (createRefreshToken P t (storage_dir u) s now)
            \<lparr>path = Some ''/api/tokens/refresh'', maxAge = Some (7 * 60 * 60), httpOnly = Some True,
             secure = Some True, sameSite = Some Strict\<rparr>)]"
  using assms unfolding login_def Let_def update_result
  by (auto split: option.splits sum.splits if_splits simp: json_error_def)

lemma fetch_user_rotate:
  assumes "fetchUserByUsername P db name = Inr (Some u)"
  shows "fetchUserByUsername P (map (set_token_fields uid t s) db) name
         = Inr (Some (set_token_fields uid t s u))"
  using assms
  by (auto simp: fetchUserByUsername_def find_map_row split: sum.splits option.splits)

lemma find_SomeD: "find p xs = Some x \<Longrightarrow> x \<in> set xs \<and> p x"
  by (induction xs) (auto split: if_splits)

lemma select_slug_in_store:
  assumes "select_token_slug db t = Some s"
  shows "\<exists>r\<in>set db. token_id r = Some t \<and> token_slug r = Some s"
proof (cases "find (\<lambda>r. token_id r = Some t) db")
  case None
  then show ?thesis using assms by (simp add: select_token_slug_def)
next
  case (Some r)
  then have "token_slug r = Some s" using assms by (simp add: select_token_slug_def)
  moreover have "r \<in> set db" "token_id r = Some t" using find_SomeD [OF Some] by simp_all
  ultimately show ?thesis by blast
qed

lemma set_token_fields_ids: "map (user_id \<circ> set_token_fields uid t s) db = map user_id db"
  by (induction db) simp_all

lemma reachable_distinct: "reachable P e db \<Longrightarrow> distinct (map user_id db)"
proof (induction rule: reachable.induct)
  case (initial db)
  then show ?case .
next
  case (after_login db req newTokenId newTokenSlug now)
  then show ?case
    using login_store [of P e req db newTokenId newTokenSlug now]
    by (auto simp: set_token_fields_ids)
next
  case (after_refresh db req now)
  then show ?case using refresh_cases [of P e req db now] by auto
next
  case (after_logout db)
  then show ?case by (simp add: logout_def)
qed

lemma valid_slots_unique:
  assumes "distinct (map user_id db)" and "a \<in> valid_slots db uid" and "b \<in> valid_slots db uid"
  shows "a = b"
proof -
  obtain r1 where r1: "r1 \<in> set db" "user_id r1 = uid" "token_id r1 = Some (fst a)" "token_slug r1 = Some (snd a)"
    using assms(2) by (auto simp: valid_slots_def)
  obtain r2 where r2: "r2 \<in> set db" "user_id r2 = uid" "token_id r2 = Some (fst b)" "token_slug r2 = Some (snd b)"
    using assms(3) by (auto simp: valid_slots_def)
  have "inj_on user_id (set db)" using assms(1) by (simp add: distinct_map)
  then have "r1 = r2" using r1(1,2) r2(1,2) by (auto dest: inj_onD)
  then show ?thesis using r1 r2 by (simp add: prod_eq_iff)
qed

lemma refresh_replayed:
  assumes cookie: "getCookie req ''refresh-tok'' = Inr (Some tok)"
    and len: "length (str_split CHR ''.'' tok) = 3"
    and parse: "Option.bind (atob (str_split CHR ''.'' tok ! 1)) (JSON_parse P) = Some payload"
    and sub: "get_property payload ''sub'' = Inr (Value (JString tokenId))"
    and ne: "tokenId \<noteq> []"
  shows "fst (refresh P e req db now)
         = (case select_token_slug db tokenId of
              None \<Rightarrow> json_error ''Token not found'' 401
            | Some slug \<Rightarrow>
                if slug = [] then json_error ''Token not found'' 401
                else (case verifyRefreshToken P tok slug now of
                        None \<Rightarrow> json_error ''Invalid or expired token'' 401
                      | Some claims \<Rightarrow>
                          \<lparr>status = 200,
                           body = StringJson (createAccessToken P (store claims) (getJwtSecret e) now),
                           headers = []\<rparr>))"
proof -
  have "tok \<noteq> []" using len by auto
  then show ?thesis
    by (simp add: refresh_def cookie len parse [unfolded One_nat_def] sub ne
        fetchTokenSlugByTokenId_def Let_def split: option.splits)
qed

lemma rotated_store_lookup:
  assumes fresh: "\<forall>r\<in>set db0. sint (user_id r) \<noteq> uid \<longrightarrow> token_id r \<noteq> Some tokenId1"
    and found: "select_token_slug
                  (map (set_token_fields uid tokenId2 tokenSlug2)
                     (map (set_token_fields uid tokenId1 tokenSlug1) db0)) tokenId1 = Some slug"
  shows "tokenId2 = tokenId1 \<and> slug = tokenSlug2"
proof -
  from select_slug_in_store [OF found] obtain r where
    r: "r \<in> set (map (set_token_fields uid tokenId2 tokenSlug2)
                 (map (set_token_fields uid tokenId1 tokenSlug1) db0))"
    "token_id r = Some tokenId1" "token_slug r = Some slug"
    by blast
  then obtain r0 where r0: "r0 \<in> set db0"
    "r = set_token_fields uid tokenId2 tokenSlug2 (set_token_fields uid tokenId1 tokenSlug1 r0)"
    by auto
  show ?thesis
  proof (cases "sint (user_id r0) = uid")
    case True
    then show ?thesis using r(2,3) r0(2) by (simp add: set_token_fields_def)
  next
    case False
    then have "r = r0" using r0(2) by (simp add: set_token_fields_def)
    then show ?thesis using fresh r0(1) r(2) False by auto
  qed
qed

lemma refresh_internal_error:
  "(getCookie req ''refresh-tok'' = Inl err
      \<longrightarrow> fst (refresh P e req db now) = json_error ''Internal server error'' 500)
   \<and> (getCookie req ''refresh-tok'' = Inr (Some tok) \<and> tok \<noteq> []
        \<and> length (str_split CHR ''.'' tok) = 3
        \<and> Option.bind (atob (str_split CHR ''.'' tok ! 1)) (JSON_parse P) = Some payload \<longrightarrow>
        (get_property payload ''sub'' = Inl err
           \<longrightarrow> fst (refresh P e req db now) = json_error ''Internal server error'' 500)
      \<and> (get_property payload ''sub'' = Inr payload_sub \<and> truthy P payload_sub
           \<and> fetchTokenSlugByTokenId P db payload_sub = Inl err
           \<longrightarrow> fst (refresh P e req db now) = json_error ''Internal server error'' 500))"
  unfolding refresh_def Let_def
  by (auto split: sum.splits option.splits)

section \<open>The concrete instances\<close>

lemma alice_fields:
  "user_id alice = 1" "username alice = ''alice''" "storage_dir alice = ''dir-a''"
  "pass_hash alice = hashPassword toy_platform (replicate 16 7) ''correct-password''"
  "token_id alice = None" "token_slug alice = None"
  by (simp_all add: alice_def)

lemma to_double_1: "to_double 1 = 1"
  by code_simp

lemma alice_js_id: "js_id alice = 1"
  by (simp add: js_id_def alice_fields to_double_1)

lemma alice_password_ok:
  "verifyPassword toy_platform ''correct-password'' (pass_hash alice) = Inr True"
  unfolding alice_fields
  by (rule verify_hash_roundtrip) (simp_all add: toy_platform_def TextEncoder_encode_def)

lemma alice_found: "fetchUserByUsername P [alice] (Value (JString ''alice'')) = Inr (Some alice)"
  by (simp add: fetchUserByUsername_def alice_fields)

lemma credentials_properties:
  "get_property (credentials name password) ''username'' = Inr (Value (JString name))"
  "get_property (credentials name password) ''password'' = Inr (Value (JString password))"
  by (simp_all add: credentials_def)

lemma alice_login_body: "json_body alice_login = Some (credentials ''alice'' ''correct-password'')"
  by (simp add: alice_login_def)

lemma alice_update:
  "updateUserTokenFields [alice] (js_id alice) t s = ([alice\<lparr>token_id := Some t, token_slug := Some s\<rparr>], True)"
  by (simp add: update_result set_token_fields_def alice_js_id alice_fields)

lemma encode_inj: "TextEncoder_encode s = TextEncoder_encode t \<longleftrightarrow> s = t"
proof
  assume "TextEncoder_encode s = TextEncoder_encode t"
  then have "fromCharCode (TextEncoder_encode s) = fromCharCode (TextEncoder_encode t)" by simp
  moreover have "\<And>x. fromCharCode (TextEncoder_encode x) = x"
  proof -
    fix x
    have c: "\<And>c. char_of (unat (of_char c :: byte)) = c"
    proof -
      fix c
      have "unat (of_char c :: byte) = unat (of_nat (of_char c :: nat) :: byte)"
        by (simp only: of_nat_of_char)
      also have "\<dots> = (of_char c :: nat)"
        using nat_of_char_less_256 [of c] by (simp add: unat_of_nat)
      finally show "char_of (unat (of_char c :: byte)) = c" by simp
    qed
    show "fromCharCode (TextEncoder_encode x) = x"
      by (induction x) (simp_all add: fromCharCode_def TextEncoder_encode_def c)
  qed
  ultimately show "s = t" by simp
qed simp

lemma toy_refresh_token:
  "SignJWT toy_platform (RefreshTokenPayload ''t1'' ''dir-a'' ex) (TextEncoder_encode ''s1'')
   = ''ZGlyLWE=.dDE=.czE=''"
  by (simp add: toy_platform_def) code_simp

lemma toy_cookie:
  "getCookie (with_cookie ''refresh-tok=ZGlyLWE%3D.dDE%3D.czE%3D'') ''refresh-tok''
   = Inr (Some ''ZGlyLWE=.dDE=.czE='')"
  by code_simp

lemma toy_parts: "str_split CHR ''.'' ''ZGlyLWE=.dDE=.czE='' = [''ZGlyLWE='', ''dDE='', ''czE='']"
  by simp

lemma toy_atob:
  "atob ''ZGlyLWE='' = Some ''dir-a''" "atob ''dDE='' = Some ''t1''" "atob ''czE='' = Some ''s1''"
  by code_simp+

lemma toy_parse: "JSON_parse toy_platform text = Some (JObject [(''sub'', JString text)])"
  by (simp add: toy_platform_def)

lemma toy_payload:
  "Option.bind (atob (str_split CHR ''.'' ''ZGlyLWE=.dDE=.czE='' ! 1)) (JSON_parse toy_platform)
   = Some (JObject [(''sub'', JString ''t1'')])"
  by (simp add: toy_parts toy_atob toy_parse)

lemma toy_verify:
  "verifyRefreshToken toy_platform ''ZGlyLWE=.dDE=.czE='' s now
   = (if s = ''s1'' then Some (RefreshTokenPayload ''t1'' ''dir-a'' 0) else None)"
proof -
  have "charCodes ''s1'' = TextEncoder_encode ''s1''"
    by (simp add: charCodes_def TextEncoder_encode_def)
  then have "charCodes ''s1'' = TextEncoder_encode s \<longleftrightarrow> s = ''s1''"
    using encode_inj [of "''s1''" s] by auto
  then show ?thesis
    by (simp add: verifyRefreshToken_def toy_platform_def toy_parts toy_atob)
qed

lemma toy_lookup:
  "fetchTokenSlugByTokenId P db (Value (JString t)) = Inr (select_token_slug db t)"
  by (simp add: fetchTokenSlugByTokenId_def)

lemma toy_refresh_ok:
  "fst (refresh toy_platform toy_env (with_cookie ''refresh-tok=ZGlyLWE%3D.dDE%3D.czE%3D'')
      [alice\<lparr>token_id := Some ''t1'', token_slug := Some ''s1'', storage_dir := ''moved''\<rparr>] now)
   = \<lparr>status = 200,
      body = StringJson (createAccessToken toy_platform ''dir-a'' (getJwtSecret toy_env) now),
      headers = []\<rparr>"
  by (simp add: refresh_def toy_cookie toy_parts toy_atob toy_parse toy_verify
      toy_lookup select_token_slug_def)

lemma no_cookie: "getCookie \<lparr>cookie_header = None, json_body = None\<rparr> ''refresh-tok'' = Inr None"
  by (simp add: getCookie_def)

lemma abc_cookie:
  "getCookie \<lparr>cookie_header = Some ''refresh-tok=abc'', json_body = None\<rparr> ''refresh-tok'' = Inr (Some ''abc'')"
  by code_simp

lemma alice_rotated_found:
  "fetchUserByUsername P [alice\<lparr>token_id := Some t, token_slug := Some s\<rparr>] (Value (JString ''alice''))
   = Inr (Some (alice\<lparr>token_id := Some t, token_slug := Some s\<rparr>))"
  by (simp add: fetchUserByUsername_def alice_fields)

lemma alice_login_ok:
  "snd (login toy_platform toy_env alice_login [alice] (\<lambda>d. d) t s now)
     = [alice\<lparr>token_id := Some t, token_slug := Some s\<rparr>]"
  "status (fst (login toy_platform toy_env alice_login [alice] (\<lambda>d. d) t s now)) = 200"
proof -
  have tr: "truthy toy_platform (Value (JString ''alice''))"
    "truthy toy_platform (Value (JString ''correct-password''))" by simp_all
  have pw: "verifyPassword toy_platform (js_to_string toy_platform (Value (JString ''correct-password'')))
      (pass_hash alice) = Inr True"
    using alice_password_ok by simp
  note ok = login_success [where others = "\<lambda>d. d" and e = toy_env and now = now,
      OF alice_login_body credentials_properties(1) tr(1) credentials_properties(2) tr(2)
         alice_found pw alice_update [of t s]]
  show "snd (login toy_platform toy_env alice_login [alice] (\<lambda>d. d) t s now)
     = [alice\<lparr>token_id := Some t, token_slug := Some s\<rparr>]"
    by (simp add: ok)
  show "status (fst (login toy_platform toy_env alice_login [alice] (\<lambda>d. d) t s now)) = 200"
    by (simp add: ok)
qed

lemma alice_second_login_ok:
  "snd (login toy_platform toy_env alice_login [alice\<lparr>token_id := Some t1, token_slug := Some s1\<rparr>]
     (\<lambda>d. d) t s now) = [alice\<lparr>token_id := Some t, token_slug := Some s\<rparr>]"
  "status (fst (login toy_platform toy_env alice_login
     [alice\<lparr>token_id := Some t1, token_slug := Some s1\<rparr>] (\<lambda>d. d) t s now)) = 200"
proof -
  let ?a = "alice\<lparr>token_id := Some t1, token_slug := Some s1\<rparr>"
  have tr: "truthy toy_platform (Value (JString ''alice''))"
    "truthy toy_platform (Value (JString ''correct-password''))" by simp_all
  have pw: "verifyPassword toy_platform (js_to_string toy_platform (Value (JString ''correct-password'')))
      (pass_hash ?a) = Inr True"
    using alice_password_ok by simp
  have upd: "updateUserTokenFields [?a] (js_id ?a) t s
               = ([alice\<lparr>token_id := Some t, token_slug := Some s\<rparr>], True)"
    by (simp add: update_result set_token_fields_def js_id_def alice_fields to_double_1)
  note ok = login_success [where others = "\<lambda>d. d" and e = toy_env and now = now,
      OF alice_login_body credentials_properties(1) tr(1) credentials_properties(2) tr(2)
         alice_rotated_found pw upd]
  show "snd (login toy_platform toy_env alice_login [?a] (\<lambda>d. d) t s now)
          = [alice\<lparr>token_id := Some t, token_slug := Some s\<rparr>]"
    by (simp add: ok)
  show "status (fst (login toy_platform toy_env alice_login [?a] (\<lambda>d. d) t s now)) = 200"
    by (simp add: ok)
qed

section \<open>The claims\<close>

text \<open>
  Claim C1. After a second successful login of the same user has rotated the slot, the
  refresh token that the first login issued is answered 401 by the refresh handler at any
  time, also before its 7-hour expiry: with \<open>Token not found\<close> when the lookup by its
  claimed \<open>sub\<close> finds no slug, with \<open>Invalid or expired token\<close> when it finds one. The two
  logins run one after the other. The token ids are taken as \<^verbatim>\<open>crypto.randomUUID()\<close>
  delivers them: no row of another user holds the first id, and the second id differs
  from the first; should the two ids be equal, the first token is taken not to verify
  under the second slug, the one then on file. The token carries its id where the
  handler reads it before verifying: it has three fields, the second of which decodes
  to a payload whose \<open>sub\<close> is the first id. The first conjunct says that \<open>tok\<close> is the
  token the first login sent in its cookie; the last that in every reachable store a
  user has at most one slot under which the refresh handler accepts a token.
\<close>
theorem second_login_invalidates_first_refresh_token:
  assumes first: "login P e req1 db0 (\<lambda>d. d) tokenId1 tokenSlug1 now1 = (resp1, db1)" "status resp1 = 200"
    and second: "login P e req2 db1 (\<lambda>d. d) tokenId2 tokenSlug2 now2 = (resp2, db2)" "status resp2 = 200"
    and same_user:
      "json_body req1 = Some body1" "get_property body1 ''username'' = Inr name"
      "json_body req2 = Some body2" "get_property body2 ''username'' = Inr name"
      "fetchUserByUsername P db0 name = Inr (Some u)"
    and fresh: "\<forall>r\<in>set db0. sint (user_id r) \<noteq> js_id u \<longrightarrow> token_id r \<noteq> Some tokenId1"
    and rotated: "tokenId2 \<noteq> tokenId1 \<or> verifyRefreshToken P tok tokenSlug2 now = None"
    and issued: "tok = createRefreshToken P tokenId1 (storage_dir u) tokenSlug1 now1"
    and claimed:
      "length (str_split CHR ''.'' tok) = 3"
      "Option.bind (atob (str_split CHR ''.'' tok ! 1)) (JSON_parse P) = Some payload"
      "get_property payload ''sub'' = Inr (Value (JString tokenId1))" "tokenId1 \<noteq> []"
    and replay: "getCookie req3 ''refresh-tok'' = Inr (Some tok)"
  shows "headers resp1 = [(''Set-Cookie'', createCookie ''refresh-tok'' tok
            \<lparr>path = Some ''/api/tokens/refresh'', maxAge = Some (7 * 60 * 60), httpOnly = Some True,
             secure = Some True, sameSite = Some Strict\<rparr>)]
       \<and> (fst (refresh P e req3 db2 now) = json_error ''Token not found'' 401
          \<or> fst (refresh P e req3 db2 now) = json_error ''Invalid or expired token'' 401)
       \<and> (\<forall>db uid. reachable P e db \<longrightarrow>
            (\<forall>a\<in>valid_slots db uid. \<forall>b\<in>valid_slots db uid. a = b))"
proof -
  have db1: "db1 = map (set_token_fields (js_id u) tokenId1 tokenSlug1) db0"
    and hdr: "headers resp1 = [(''Set-Cookie'', createCookie ''refresh-tok'' tok
            \<lparr>path = Some ''/api/tokens/refresh'', maxAge = Some (7 * 60 * 60), httpOnly = Some True,
             secure = Some True, sameSite = Some Strict\<rparr>)]"
    using login_success_inv [OF first same_user(1,2,5)] issued by simp_all
  have u1: "fetchUserByUsername P db1 name
              = Inr (Some (set_token_fields (js_id u) tokenId1 tokenSlug1 u))"
    unfolding db1 using same_user(5) by (rule fetch_user_rotate)
  have db2: "db2 = map (set_token_fields (js_id u) tokenId2 tokenSlug2)
                     (map (set_token_fields (js_id u) tokenId1 tokenSlug1) db0)"
    using login_success_inv(1) [OF second same_user(3,4) u1] db1 by simp
  note answer = refresh_replayed [OF replay claimed, of e db2 now]
  have "fst (refresh P e req3 db2 now) = json_error ''Token not found'' 401
      \<or> fst (refresh P e req3 db2 now) = json_error ''Invalid or expired token'' 401"
  proof (cases "select_token_slug db2 tokenId1")
    case None
    then show ?thesis using answer by simp
  next
    case (Some slug)
    then have "tokenId2 = tokenId1" "slug = tokenSlug2"
      using rotated_store_lookup [OF fresh] db2 by simp_all
    then have "verifyRefreshToken P tok slug now = None" using rotated by simp
    then show ?thesis using answer Some by simp
  qed
  moreover have "\<forall>db uid. reachable P e db \<longrightarrow>
            (\<forall>a\<in>valid_slots db uid. \<forall>b\<in>valid_slots db uid. a = b)"
    using reachable_distinct valid_slots_unique by blast
  ultimately show ?thesis using hdr by simp
qed

theorem second_login_invalidates_first_refresh_token_witness:
  "status (fst (login toy_platform toy_env alice_login [alice] (\<lambda>d. d) ''t1'' ''s1'' 0)) = 200
   \<and> status (fst (login toy_platform toy_env alice_login
         (snd (login toy_platform toy_env alice_login [alice] (\<lambda>d. d) ''t1'' ''s1'' 0))
         (\<lambda>d. d) ''t2'' ''s2'' 1000)) = 200
   \<and> (2000 :: nat) div 1000 < 0 div 1000 + 7 * 60 * 60
   \<and> fst (refresh toy_platform toy_env (with_cookie ''refresh-tok=ZGlyLWE%3D.dDE%3D.czE%3D'')
         (snd (login toy_platform toy_env alice_login
            (snd (login toy_platform toy_env alice_login [alice] (\<lambda>d. d) ''t1'' ''s1'' 0))
            (\<lambda>d. d) ''t2'' ''s2'' 1000))
         2000) = json_error ''Token not found'' 401"
proof -
  let ?db1 = "[alice\<lparr>token_id := Some ''t1'', token_slug := Some ''s1''\<rparr>]"
  let ?db2 = "[alice\<lparr>token_id := Some ''t2'', token_slug := Some ''s2''\<rparr>]"
  let ?r = "fst (refresh toy_platform toy_env (with_cookie ''refresh-tok=ZGlyLWE%3D.dDE%3D.czE%3D'')
          ?db2 2000)"
  have first: "snd (login toy_platform toy_env alice_login [alice] (\<lambda>d. d) ''t1'' ''s1'' 0) = ?db1"
    "status (fst (login toy_platform toy_env alice_login [alice] (\<lambda>d. d) ''t1'' ''s1'' 0)) = 200"
    by (simp_all add: alice_login_ok)
  have second: "snd (login toy_platform toy_env alice_login ?db1 (\<lambda>d. d) ''t2'' ''s2'' 1000) = ?db2"
    "status (fst (login toy_platform toy_env alice_login ?db1 (\<lambda>d. d) ''t2'' ''s2'' 1000)) = 200"
    by (simp_all add: alice_second_login_ok)
  have l1: "login toy_platform toy_env alice_login [alice] (\<lambda>d. d) ''t1'' ''s1'' 0
      = (fst (login toy_platform toy_env alice_login [alice] (\<lambda>d. d) ''t1'' ''s1'' 0), ?db1)"
    using first(1) by (simp add: prod_eq_iff)
  have l2: "login toy_platform toy_env alice_login ?db1 (\<lambda>d. d) ''t2'' ''s2'' 1000
      = (fst (login toy_platform toy_env alice_login ?db1 (\<lambda>d. d) ''t2'' ''s2'' 1000), ?db2)"
    using second(1) by (simp add: prod_eq_iff)
  have fresh: "\<forall>r\<in>set [alice]. sint (user_id r) \<noteq> js_id alice \<longrightarrow> token_id r \<noteq> Some ''t1''"
    by (simp add: alice_fields)
  have issued: "''ZGlyLWE=.dDE=.czE='' = createRefreshToken toy_platform ''t1'' (storage_dir alice) ''s1'' 0"
    by (simp add: createRefreshToken_def toy_refresh_token alice_fields)
  have rotated: "''t2'' \<noteq> ''t1''
      \<or> verifyRefreshToken toy_platform ''ZGlyLWE=.dDE=.czE='' ''s2'' 2000 = None"
    by simp
  have len: "length (str_split CHR ''.'' ''ZGlyLWE=.dDE=.czE='') = 3" by (simp add: toy_parts)
  have sub: "get_property (JObject [(''sub'', JString ''t1'')]) ''sub'' = Inr (Value (JString ''t1''))"
    by simp
  have ne: "''t1'' \<noteq> []" by simp
  have "?r = json_error ''Token not found'' 401 \<or> ?r = json_error ''Invalid or expired token'' 401"
    using second_login_invalidates_first_refresh_token
      [OF l1 first(2) l2 second(2) alice_login_body credentials_properties(1)
          alice_login_body credentials_properties(1) alice_found fresh rotated issued
          len toy_payload sub ne toy_cookie]
    by simp
  moreover have "?r \<noteq> json_error ''Invalid or expired token'' 401"
    by (simp add: refresh_def toy_cookie toy_parts toy_atob toy_parse toy_lookup
        select_token_slug_def alice_fields json_error_def)
  ultimately have "?r = json_error ''Token not found'' 401" by blast
  then show ?thesis using first second by simp
qed

text \<open>
  Claim C2 says that refresh requests failing for different reasons get identical 401
  responses. A request without cookie and a request whose token has no three fields both
  get status 401, with different bodies.
\<close>

theorem refresh_unauthorized_bodies_differ:
  "fst (refresh toy_platform toy_env \<lparr>cookie_header = None, json_body = None\<rparr> [] 0)
     = \<lparr>status = 401, body = ErrorJson ''No refresh token'', headers = []\<rparr>
   \<and> fst (refresh toy_platform toy_env \<lparr>cookie_header = Some ''refresh-tok=abc'', json_body = None\<rparr> [] 0)
     = \<lparr>status = 401, body = ErrorJson ''Invalid token format'', headers = []\<rparr>
   \<and> body (fst (refresh toy_platform toy_env \<lparr>cookie_header = None, json_body = None\<rparr> [] 0))
     \<noteq> body (fst (refresh toy_platform toy_env
           \<lparr>cookie_header = Some ''refresh-tok=abc'', json_body = None\<rparr> [] 0))"
  by (simp add: refresh_def no_cookie abc_cookie json_error_def)

text \<open>
  Claim C2, as the handler has it. Six checks of the refresh handler answer 401: no
  cookie (or an empty one); a token that has not three fields; a payload that is not
  base64 or not JSON; a payload whose \<open>sub\<close> is absent or falsy; no slug (or an empty
  one) on file for the claimed \<open>sub\<close>; a token that does not verify under the slug on
  file, whatever made the verification fail. A request failing one of them is answered
  with status 401, no header, and the \<open>error\<close> message of that check; the six messages
  differ from each other.
\<close>

theorem refresh_unauthorized_by_cause:
  "(getCookie req ''refresh-tok'' \<in> {Inr None, Inr (Some [])}
      \<longrightarrow> fst (refresh P e req db now) = json_error ''No refresh token'' 401)
   \<and> (getCookie req ''refresh-tok'' = Inr (Some tok) \<and> tok \<noteq> [] \<longrightarrow>
        (length (str_split CHR ''.'' tok) \<noteq> 3
           \<longrightarrow> fst (refresh P e req db now) = json_error ''Invalid token format'' 401)
      \<and> (length (str_split CHR ''.'' tok) = 3 \<longrightarrow>
           (Option.bind (atob (str_split CHR ''.'' tok ! 1)) (JSON_parse P) = None
              \<longrightarrow> fst (refresh P e req db now) = json_error ''Invalid token'' 401)
         \<and> (Option.bind (atob (str_split CHR ''.'' tok ! 1)) (JSON_parse P) = Some payload
              \<and> get_property payload ''sub'' = Inr payload_sub \<longrightarrow>
              (\<not> truthy P payload_sub
                 \<longrightarrow> fst (refresh P e req db now) = json_error ''Invalid token payload'' 401)
            \<and> (truthy P payload_sub \<longrightarrow>
                 (fetchTokenSlugByTokenId P db payload_sub \<in> {Inr None, Inr (Some [])}
                    \<longrightarrow> fst (refresh P e req db now) = json_error ''Token not found'' 401)
               \<and> (fetchTokenSlugByTokenId P db payload_sub = Inr (Some tokenSlug) \<and> tokenSlug \<noteq> []
                    \<and> verifyRefreshToken P tok tokenSlug now = None
                    \<longrightarrow> fst (refresh P e req db now) = json_error ''Invalid or expired token'' 401)))))
   \<and> distinct [''No refresh token'', ''Invalid token format'', ''Invalid token'',
        ''Invalid token payload'', ''Token not found'', ''Invalid or expired token'']"
  unfolding refresh_def Let_def
  by (auto split: sum.splits option.splits)

theorem refresh_unauthorized_by_cause_witness:
  "fst (refresh toy_platform toy_env \<lparr>cookie_header = None, json_body = None\<rparr> [] 0)
     = json_error ''No refresh token'' 401
   \<and> fst (refresh toy_platform toy_env \<lparr>cookie_header = Some ''refresh-tok=abc'', json_body = None\<rparr> [] 0)
     = json_error ''Invalid token format'' 401
   \<and> fst (refresh toy_platform toy_env (with_cookie ''refresh-tok=ZGlyLWE%3D.dDE%3D.czE%3D'') [alice] 0)
     = json_error ''Token not found'' 401
   \<and> fst (refresh toy_platform toy_env (with_cookie ''refresh-tok=ZGlyLWE%3D.dDE%3D.czE%3D'')
        [alice\<lparr>token_id := Some ''t1'', token_slug := Some ''s2''\<rparr>] 0)
     = json_error ''Invalid or expired token'' 401"
proof -
  have a: "fst (refresh toy_platform toy_env \<lparr>cookie_header = None, json_body = None\<rparr> [] 0)
     = json_error ''No refresh token'' 401"
    using refresh_unauthorized_by_cause
      [of "\<lparr>cookie_header = None, json_body = None\<rparr>" toy_platform toy_env "[]" 0]
    by (simp add: no_cookie)
  have b: "fst (refresh toy_platform toy_env \<lparr>cookie_header = Some ''refresh-tok=abc'', json_body = None\<rparr> [] 0)
     = json_error ''Invalid token format'' 401"
    using refresh_unauthorized_by_cause
      [of "\<lparr>cookie_header = Some ''refresh-tok=abc'', json_body = None\<rparr>" toy_platform toy_env "[]" 0
          "''abc''"]
    by (simp add: abc_cookie)
  have sub: "get_property (JObject [(''sub'', JString ''t1'')]) ''sub'' = Inr (Value (JString ''t1''))"
    by simp
  have tr: "truthy toy_platform (Value (JString ''t1''))" by simp
  have len: "length (str_split CHR ''.'' ''ZGlyLWE=.dDE=.czE='') = 3"
    by (simp add: toy_parts)
  have c: "fst (refresh toy_platform toy_env (with_cookie ''refresh-tok=ZGlyLWE%3D.dDE%3D.czE%3D'') [alice] 0)
     = json_error ''Token not found'' 401"
    using refresh_unauthorized_by_cause
      [of "with_cookie ''refresh-tok=ZGlyLWE%3D.dDE%3D.czE%3D''" toy_platform toy_env "[alice]" 0
          "''ZGlyLWE=.dDE=.czE=''" "JObject [(''sub'', JString ''t1'')]" "Value (JString ''t1'')"]
      toy_cookie toy_payload len sub tr
    by (simp add: toy_lookup select_token_slug_def alice_fields)
  have d: "fst (refresh toy_platform toy_env (with_cookie ''refresh-tok=ZGlyLWE%3D.dDE%3D.czE%3D'')
        [alice\<lparr>token_id := Some ''t1'', token_slug := Some ''s2''\<rparr>] 0)
     = json_error ''Invalid or expired token'' 401"
    using refresh_unauthorized_by_cause
      [of "with_cookie ''refresh-tok=ZGlyLWE%3D.dDE%3D.czE%3D''" toy_platform toy_env
          "[alice\<lparr>token_id := Some ''t1'', token_slug := Some ''s2''\<rparr>]" 0
          "''ZGlyLWE=.dDE=.czE=''" "JObject [(''sub'', JString ''t1'')]" "Value (JString ''t1'')" "''s2''"]
      toy_cookie toy_payload len sub tr
    by (simp add: toy_lookup select_token_slug_def toy_verify)
  show ?thesis using a b c d by simp
qed

text \<open>
  Claim C3 says that \<open>verifyPassword\<close> returns false on every malformed stored hash. On
  the stored hash \<open>!!!:AAAA\<close>, whose salt field is not base64, \<^verbatim>\<open>atob\<close> throws and
  nothing in \<open>verifyPassword\<close> catches it: the call ends in \<open>InvalidCharacterError\<close>, and
  the login of that user answers 500 from its \<^verbatim>\<open>catch\<close> block instead of 401.
\<close>

theorem verifyPassword_undecodable_salt_throws:
  "verifyPassword P ''pw'' ''!!!:AAAA'' = Inl InvalidCharacterError
   \<and> login P e \<lparr>cookie_header = None, json_body = Some (credentials ''alice'' ''pw'')\<rparr>
        [alice\<lparr>pass_hash := ''!!!:AAAA''\<rparr>] others newTokenId newTokenSlug now
      = (\<lparr>status = 500, body = ErrorJson ''Internal server error'', headers = []\<rparr>,
         [alice\<lparr>pass_hash := ''!!!:AAAA''\<rparr>])"
proof -
  have v: "verifyPassword P ''pw'' ''!!!:AAAA'' = Inl InvalidCharacterError"
    by (simp add: verifyPassword_def startsWith_def atob_def ascii_whitespace_def b64_val_def
        b64_alphabet_def Let_def)
  have u: "fetchUserByUsername P [alice\<lparr>pass_hash := ''!!!:AAAA''\<rparr>] (Value (JString ''alice''))
             = Inr (Some (alice\<lparr>pass_hash := ''!!!:AAAA''\<rparr>))"
    by (simp add: fetchUserByUsername_def alice_fields)
  show ?thesis
    using v by (simp add: login_def u json_error_def credentials_properties)
qed



text \<open>
  Claim C5. A login with correct credentials (the \<open>username\<close> and \<open>password\<close> of the
  body, both truthy) whose \<^verbatim>\<open>UPDATE\<close> changed a row answers 200. The body is the
  access token, signed under the JWT secret over the claims \<open>store\<close>, the user's
  \<open>storage_dir\<close>, and \<open>exp\<close>, five minutes ahead. The only header is \<open>Set-Cookie\<close>:
  \<open>refresh-tok=\<close> and the URI-encoded refresh token, signed under the new slug over the
  claims \<open>sub\<close>, the new token id, \<open>store\<close>, the user's \<open>storage_dir\<close>, and \<open>exp\<close>, 25200
  seconds ahead, followed by exactly \<open>Path=/api/tokens/refresh\<close>, \<open>Max-Age=25200\<close>,
  \<open>HttpOnly\<close>, \<open>Secure\<close> and \<open>SameSite=Strict\<close>.
\<close>

theorem login_issues_tokens:
  assumes "json_body req = Some body_json"
    and "get_property body_json ''username'' = Inr name" and "truthy P name"
    and "get_property body_json ''password'' = Inr password" and "truthy P password"
    and "fetchUserByUsername P db name = Inr (Some u)"
    and "verifyPassword P (js_to_string P password) (pass_hash u) = Inr True"
    and "updateUserTokenFields (others db) (js_id u) newTokenId newTokenSlug = (db', True)"
  shows "login P e req db others newTokenId newTokenSlug now
         = (\<lparr>status = 200,
             body = StringJson
               (SignJWT P (AccessTokenPayload (storage_dir u) (now div 1000 + 300)) (getJwtSecret e)),
             headers = [(''Set-Cookie'',
               ''refresh-tok=''
               @ encodeURIComponent
                   (SignJWT P (RefreshTokenPayload newTokenId (storage_dir u) (now div 1000 + 25200))
                      (TextEncoder_encode newTokenSlug))
               @ ''; Path=/api/tokens/refresh; Max-Age=25200; HttpOnly; Secure; SameSite=Strict'')]\<rparr>,
            db')"
  using assms by (rule login_success)

theorem login_issues_tokens_witness:
  "login toy_platform toy_env alice_login [alice] (\<lambda>d. d) ''t1'' ''s1'' 0
   = (\<lparr>status = 200,
       body = StringJson (SignJWT toy_platform (AccessTokenPayload ''dir-a'' 300) (getJwtSecret toy_env)),
       headers = [(''Set-Cookie'',
         ''refresh-tok=''
         @ encodeURIComponent
             (SignJWT toy_platform (RefreshTokenPayload ''t1'' ''dir-a'' 25200) (TextEncoder_encode ''s1''))
         @ ''; Path=/api/tokens/refresh; Max-Age=25200; HttpOnly; Secure; SameSite=Strict'')]\<rparr>,
      [alice\<lparr>token_id := Some ''t1'', token_slug := Some ''s1''\<rparr>])"
proof -
  have tr: "truthy toy_platform (Value (JString ''alice''))"
    "truthy toy_platform (Value (JString ''correct-password''))" by simp_all
  have pw: "verifyPassword toy_platform (js_to_string toy_platform (Value (JString ''correct-password'')))
      (pass_hash alice) = Inr True"
    using alice_password_ok by simp
  show ?thesis
    using login_issues_tokens [where others = "\<lambda>d. d" and e = toy_env and now = 0,
        OF alice_login_body credentials_properties(1) tr(1) credentials_properties(2) tr(2)
           alice_found pw alice_update [of "''t1''" "''s1''"]]
    by (simp add: alice_fields)
qed

text \<open>
  Claim C6. When the \<^verbatim>\<open>UPDATE\<close> of a login with correct credentials reports no
  changed row (the row was removed by another request after the \<^verbatim>\<open>SELECT\<close>), the
  answer is 500 with the generic error body and no header: neither token is in the
  response, and the store is as the other requests left it.
\<close>

theorem login_zero_rows_no_tokens:
  assumes "json_body req = Some body_json"
    and "get_property body_json ''username'' = Inr name" and "truthy P name"
    and "get_property body_json ''password'' = Inr password" and "truthy P password"
    and "fetchUserByUsername P db name = Inr (Some u)"
    and "verifyPassword P (js_to_string P password) (pass_hash u) = Inr True"
    and "updateUserTokenFields (others db) (js_id u) newTokenId newTokenSlug = (db', False)"
  shows "login P e req db others newTokenId newTokenSlug now
         = (\<lparr>status = 500, body = ErrorJson ''Internal server error'', headers = []\<rparr>, others db)"
  using assms by (rule login_zero_rows)

theorem login_zero_rows_no_tokens_witness:
  "updateUserTokenFields [] (js_id alice) ''t1'' ''s1'' = ([], False)
   \<and> login toy_platform toy_env alice_login [alice] (\<lambda>d. []) ''t1'' ''s1'' 0
      = (\<lparr>status = 500, body = ErrorJson ''Internal server error'', headers = []\<rparr>, [])"
proof -
  have h: "updateUserTokenFields [] (js_id alice) ''t1'' ''s1'' = ([], False)"
    by (simp add: update_result)
  have tr: "truthy toy_platform (Value (JString ''alice''))"
    "truthy toy_platform (Value (JString ''correct-password''))" by simp_all
  have pw: "verifyPassword toy_platform (js_to_string toy_platform (Value (JString ''correct-password'')))
      (pass_hash alice) = Inr True"
    using alice_password_ok by simp
  show ?thesis
    using h login_zero_rows_no_tokens [where others = "\<lambda>d. []" and e = toy_env and now = 0,
        OF alice_login_body credentials_properties(1) tr(1) credentials_properties(2) tr(2)
           alice_found pw h]
    by simp
qed

text \<open>
  Claim C7. On every successful refresh the new access token is signed over the \<open>store\<close>
  claim of the claims that \<open>verifyRefreshToken\<close> returned for the cookie's token under the
  slug read from the store; and the response of a refresh never depends on the
  \<open>storage_dir\<close> column: rewriting that column in every row leaves it the same.
\<close>

theorem refresh_store_claim_from_token:
  assumes "status (fst (refresh P e req db now)) = 200"
  shows "(\<exists>tok payload tokenId tokenSlug claims.
            getCookie req ''refresh-tok'' = Inr (Some tok)
          \<and> Option.bind (atob (str_split CHR ''.'' tok ! 1)) (JSON_parse P) = Some payload
          \<and> get_property payload ''sub'' = Inr tokenId
          \<and> truthy P tokenId
          \<and> fetchTokenSlugByTokenId P db tokenId = Inr (Some tokenSlug)
          \<and> verifyRefreshToken P tok tokenSlug now = Some claims
          \<and> fst (refresh P e req db now)
              = \<lparr>status = 200,
                 body = StringJson (SignJWT P (AccessTokenPayload (store claims) (now div 1000 + 5 * 60))
                                      (getJwtSecret e)),
                 headers = []\<rparr>)
         \<and> (\<forall>f. fst (refresh P e req (map (\<lambda>r. r\<lparr>storage_dir := f r\<rparr>) db) now)
                 = fst (refresh P e req db now))"
  using refresh_success [OF assms] refresh_ignores_storage_dir [of P e req _ db now] by blast

theorem refresh_store_claim_from_token_witness:
  "status (fst (refresh toy_platform toy_env (with_cookie ''refresh-tok=ZGlyLWE%3D.dDE%3D.czE%3D'')
      [alice\<lparr>token_id := Some ''t1'', token_slug := Some ''s1'', storage_dir := ''moved''\<rparr>] 5)) = 200
   \<and> (\<exists>tok tokenSlug claims.
         verifyRefreshToken toy_platform tok tokenSlug 5 = Some claims
       \<and> body (fst (refresh toy_platform toy_env (with_cookie ''refresh-tok=ZGlyLWE%3D.dDE%3D.czE%3D'')
            [alice\<lparr>token_id := Some ''t1'', token_slug := Some ''s1'', storage_dir := ''moved''\<rparr>] 5))
          = StringJson (SignJWT toy_platform (AccessTokenPayload (store claims) 300) (getJwtSecret toy_env)))"
proof -
  let ?r = "fst (refresh toy_platform toy_env (with_cookie ''refresh-tok=ZGlyLWE%3D.dDE%3D.czE%3D'')
      [alice\<lparr>token_id := Some ''t1'', token_slug := Some ''s1'', storage_dir := ''moved''\<rparr>] 5)"
  have h: "status ?r = 200" by (simp add: toy_refresh_ok)
  from refresh_store_claim_from_token [OF h]
  obtain tok tokenSlug claims where
    "verifyRefreshToken toy_platform tok tokenSlug 5 = Some claims"
    "?r = \<lparr>status = 200,
            body = StringJson (SignJWT toy_platform (AccessTokenPayload (store claims) (5 div 1000 + 5 * 60))
                     (getJwtSecret toy_env)),
            headers = []\<rparr>"
    by blast
  then have "verifyRefreshToken toy_platform tok tokenSlug 5 = Some claims
     \<and> body ?r = StringJson (SignJWT toy_platform (AccessTokenPayload (store claims) 300) (getJwtSecret toy_env))"
    by simp
  then show ?thesis using h by blast
qed

text \<open>
  Claim C8. Every refresh request, whatever its outcome, leaves the store as it was and
  sets no header, hence no cookie; its response is an error object or an access token
  with the five-minute expiry, never a refresh token.
\<close>

theorem refresh_leaves_store:
  "snd (refresh P e req db now) = db
   \<and> headers (fst (refresh P e req db now)) = []
   \<and> ((\<exists>msg code. fst (refresh P e req db now) = json_error msg code)
      \<or> (\<exists>storageDir. body (fst (refresh P e req db now))
            = StringJson (SignJWT P (AccessTokenPayload storageDir (now div 1000 + 5 * 60)) (getJwtSecret e))))"
  using refresh_cases [of P e req db now]
  by (auto simp: json_error_def createAccessToken_def)

text \<open>
  Claim C9. When \<open>JWT_SECRET\<close> is absent from the environment, \<open>getJwtSecret\<close> returns
  the bytes of the constant \<open>gbajs3-default-secret-change-in-production\<close>, whatever else
  the environment holds, and every access token is signed under that key.
\<close>

theorem getJwtSecret_fallback:
  assumes "JWT_SECRET e = None"
  shows "getJwtSecret e = TextEncoder_encode ''gbajs3-default-secret-change-in-production''
         \<and> createAccessToken P storageDir (getJwtSecret e) now
           = SignJWT P (AccessTokenPayload storageDir (now div 1000 + 300))
               (TextEncoder_encode ''gbajs3-default-secret-change-in-production'')"
  using assms by (simp add: getJwtSecret_def createAccessToken_def)

theorem getJwtSecret_fallback_witness:
  "JWT_SECRET toy_env = None
   \<and> getJwtSecret toy_env = TextEncoder_encode ''gbajs3-default-secret-change-in-production''"
proof -
  have h: "JWT_SECRET toy_env = None" by (simp add: toy_env_def)
  show ?thesis using h getJwtSecret_fallback [OF h] by simp
qed

text \<open>
  Claim C10. When the body of a login request is not JSON, \<^verbatim>\<open>c.req.json()\<close> throws
  inside the \<^verbatim>\<open>try\<close> block and the handler answers 500 with the generic error body,
  not the 400 of missing credentials; the store is untouched.
\<close>

theorem login_body_not_json:
  assumes "json_body req = None"
  shows "login P e req db others newTokenId newTokenSlug now
         = (\<lparr>status = 500, body = ErrorJson ''Internal server error'', headers = []\<rparr>, db)"
  using assms by (simp add: login_def json_error_def)

theorem login_body_not_json_witness:
  "json_body (with_cookie []) = None
   \<and> login toy_platform toy_env (with_cookie []) [alice] (\<lambda>d. d) ''t1'' ''s1'' 0
      = (\<lparr>status = 500, body = ErrorJson ''Internal server error'', headers = []\<rparr>, [alice])"
proof -
  have h: "json_body (with_cookie []) = None" by (simp add: with_cookie_def)
  show ?thesis using h login_body_not_json [OF h] by simp
qed

end
